theory Spec2Isabelle
  imports Complex_Main "HOL-Library.Word"
begin

section \<open>Shadow computation and serving pipeline (analysis.py)\<close>

text \<open>
  A shallow embedding of \<^verbatim>\<open>analysis.py\<close>. The collaborators the module imports
  (the solar-position calculator, the shadow-casting algorithm, pickle, gzip, the document
  store, the plotting libraries) are parameters of the model, collected in the record
  \<open>externals\<close>; each may raise, so each returns \<open>exn + result\<close>. What the module itself
  computes (array construction, normalisation, time formatting, the dictionary layouts,
  the order of the steps, the exception handler) is defined here.
\<close>

subsection \<open>Exceptions\<close>

text \<open>
  Values of \<open>exn\<close> stand for instances of Python's \<^verbatim>\<open>Exception\<close>; the string is the
  text \<^verbatim>\<open>str(e)\<close> gives. \<open>External\<close> is whatever a collaborator raised.
  \<open>GeometryError\<close> is the class the specification names for a failed sun-geometry
  resolution: \<^verbatim>\<open>analysis.py\<close> defines no exception class and has no \<^verbatim>\<open>raise\<close>, so no
  function below produces it; it is here so that a statement can tell it from the
  exceptions the module does let through.
\<close>

datatype exn =
    KeyError string
  | IndexError string
  | ValueError string
  | External string
  | GeometryError string

fun str_exn :: "exn \<Rightarrow> string" where
  "str_exn (KeyError k) = [CHR 0x27] @ k @ [CHR 0x27]"
| "str_exn (IndexError m) = m"
| "str_exn (ValueError m) = m"
| "str_exn (External m) = m"
| "str_exn (GeometryError m) = m"

fun is_geometry_error :: "exn \<Rightarrow> bool" where
  "is_geometry_error (GeometryError _) = True"
| "is_geometry_error _ = False"

subsection \<open>Floating-point samples and numpy arrays\<close>

text \<open>
  A float64 sample is a finite number, an infinity or not-a-number. Finite values are
  reals: rounding, overflow and the sign of zero are abstracted away; the special values
  follow IEEE 754, which numpy applies elementwise without raising.
\<close>

datatype float64 = Num real | PosInf | NegInf | NaN

fun fsub :: "float64 \<Rightarrow> float64 \<Rightarrow> float64" where
  "fsub NaN _ = NaN"
| "fsub _ NaN = NaN"
| "fsub (Num a) (Num b) = Num (a - b)"
| "fsub (Num _) PosInf = NegInf"
| "fsub (Num _) NegInf = PosInf"
| "fsub PosInf PosInf = NaN"
| "fsub PosInf _ = PosInf"
| "fsub NegInf NegInf = NaN"
| "fsub NegInf _ = NegInf"

fun fmul :: "float64 \<Rightarrow> float64 \<Rightarrow> float64" where
  "fmul NaN _ = NaN"
| "fmul _ NaN = NaN"
| "fmul (Num a) (Num b) = Num (a * b)"
| "fmul (Num a) PosInf = (if a = 0 then NaN else if 0 < a then PosInf else NegInf)"
| "fmul (Num a) NegInf = (if a = 0 then NaN else if 0 < a then NegInf else PosInf)"
| "fmul PosInf (Num b) = (if b = 0 then NaN else if 0 < b then PosInf else NegInf)"
| "fmul NegInf (Num b) = (if b = 0 then NaN else if 0 < b then NegInf else PosInf)"
| "fmul PosInf PosInf = PosInf"
| "fmul PosInf NegInf = NegInf"
| "fmul NegInf PosInf = NegInf"
| "fmul NegInf NegInf = PosInf"

fun fdiv :: "float64 \<Rightarrow> float64 \<Rightarrow> float64" where
  "fdiv NaN _ = NaN"
| "fdiv _ NaN = NaN"
| "fdiv (Num a) (Num b) =
     (if b = 0 then (if a = 0 then NaN else if 0 < a then PosInf else NegInf)
      else Num (a / b))"
| "fdiv (Num _) PosInf = Num 0"
| "fdiv (Num _) NegInf = Num 0"
| "fdiv PosInf (Num b) = (if 0 \<le> b then PosInf else NegInf)"
| "fdiv NegInf (Num b) = (if 0 \<le> b then NegInf else PosInf)"
| "fdiv PosInf _ = NaN"
| "fdiv NegInf _ = NaN"

text \<open>\<^verbatim>\<open>np.minimum\<close> and \<^verbatim>\<open>np.maximum\<close> on two samples: not-a-number propagates.\<close>

fun fmin2 :: "float64 \<Rightarrow> float64 \<Rightarrow> float64" where
  "fmin2 NaN _ = NaN"
| "fmin2 _ NaN = NaN"
| "fmin2 NegInf _ = NegInf"
| "fmin2 _ NegInf = NegInf"
| "fmin2 PosInf y = y"
| "fmin2 x PosInf = x"
| "fmin2 (Num a) (Num b) = Num (min a b)"

fun fmax2 :: "float64 \<Rightarrow> float64 \<Rightarrow> float64" where
  "fmax2 NaN _ = NaN"
| "fmax2 _ NaN = NaN"
| "fmax2 PosInf _ = PosInf"
| "fmax2 _ PosInf = PosInf"
| "fmax2 NegInf y = y"
| "fmax2 x NegInf = x"
| "fmax2 (Num a) (Num b) = Num (max a b)"

text \<open>An array is its shape and its samples in row-major order.\<close>

record ndarray =
  shape :: "nat list"
  data :: "float64 list"

definition wf_ndarray :: "ndarray \<Rightarrow> bool" where
  "wf_ndarray a = (length (data a) = prod_list (shape a))"

text \<open>\<^verbatim>\<open>a.shape[i]\<close>: indexing the shape tuple out of range raises.\<close>

definition shape_at :: "ndarray \<Rightarrow> nat \<Rightarrow> exn + nat" where
  "shape_at a i =
     (if i < length (shape a) then Inr (shape a ! i)
      else Inl (IndexError ''tuple index out of range''))"

text \<open>\<^verbatim>\<open>np.zeros((r, c))\<close>.\<close>

definition np_zeros :: "nat \<Rightarrow> nat \<Rightarrow> ndarray" where
  "np_zeros r c = \<lparr>shape = [r, c], data = replicate (r * c) (Num 0)\<rparr>"

text \<open>Array-with-scalar arithmetic, elementwise by broadcasting.\<close>

definition arr_sub :: "ndarray \<Rightarrow> float64 \<Rightarrow> ndarray" where
  "arr_sub a s = a\<lparr>data := map (\<lambda>x. fsub x s) (data a)\<rparr>"

definition arr_mul :: "ndarray \<Rightarrow> float64 \<Rightarrow> ndarray" where
  "arr_mul a s = a\<lparr>data := map (\<lambda>x. fmul x s) (data a)\<rparr>"

definition arr_div :: "ndarray \<Rightarrow> float64 \<Rightarrow> ndarray" where
  "arr_div a s = a\<lparr>data := map (\<lambda>x. fdiv x s) (data a)\<rparr>"

text \<open>\<^verbatim>\<open>np.min\<close> and \<^verbatim>\<open>np.max\<close> over all samples: an empty array raises.\<close>

definition np_min :: "ndarray \<Rightarrow> exn + float64" where
  "np_min a =
     (case data a of
        [] \<Rightarrow> Inl (ValueError ''zero-size array to reduction operation minimum which has no identity'')
      | x # xs \<Rightarrow> Inr (foldl fmin2 x xs))"

definition np_max :: "ndarray \<Rightarrow> exn + float64" where
  "np_max a =
     (case data a of
        [] \<Rightarrow> Inl (ValueError ''zero-size array to reduction operation maximum which has no identity'')
      | x # xs \<Rightarrow> Inr (foldl fmax2 x xs))"

text \<open>The largest finite float64, and \<^verbatim>\<open>np.pi\<close> to the digits numpy prints.\<close>

definition float_max :: real where
  "float_max = 2 ^ 1024 - 2 ^ 971"

definition np_pi :: float64 where
  "np_pi = Num (3141592653589793 / 1000000000000000)"

text \<open>
  \<^verbatim>\<open>np.nan_to_num(x, nan=v)\<close>: not-a-number becomes \<open>v\<close>, the infinities become the
  largest and the smallest finite float64.
\<close>

fun nan_to_num1 :: "float64 \<Rightarrow> float64 \<Rightarrow> float64" where
  "nan_to_num1 v NaN = v"
| "nan_to_num1 v PosInf = Num float_max"
| "nan_to_num1 v NegInf = Num (- float_max)"
| "nan_to_num1 v (Num r) = Num r"

definition nan_to_num :: "ndarray \<Rightarrow> float64 \<Rightarrow> ndarray" where
  "nan_to_num a v = a\<lparr>data := map (nan_to_num1 v) (data a)\<rparr>"

text \<open>\<^verbatim>\<open>np.linspace(start, stop, num)\<close> and \<^verbatim>\<open>np.meshgrid(x, y)\<close>.\<close>

definition np_linspace :: "real \<Rightarrow> real \<Rightarrow> nat \<Rightarrow> float64 list" where
  "np_linspace start stop num =
     (if num = 0 then []
      else if num = 1 then [Num start]
      else map (\<lambda>i. Num (start + real i * ((stop - start) / real (num - 1)))) [0..<num])"

definition np_meshgrid :: "float64 list \<Rightarrow> float64 list \<Rightarrow> ndarray \<times> ndarray" where
  "np_meshgrid x y =
     (\<lparr>shape = [length y, length x], data = concat (replicate (length y) x)\<rparr>,
      \<lparr>shape = [length y, length x], data = concat (map (\<lambda>v. replicate (length x) v) y)\<rparr>)"

subsection \<open>Time stamps\<close>

record datetime =
  year :: nat
  month :: nat
  day :: nat
  hour :: nat
  minute :: nat
  second :: nat
  microsecond :: nat

definition digit :: "nat \<Rightarrow> char" where
  "digit n = ''0123456789'' ! (n mod 10)"

fun dec :: "nat \<Rightarrow> string" where
  "dec n = (if n < 10 then [digit n] else dec (n div 10) @ [digit n])"

definition pad2 :: "nat \<Rightarrow> string" where
  "pad2 n = (if n < 10 then CHR ''0'' # dec n else dec n)"

text \<open>
  \<^verbatim>\<open>timestamp.strftime('%Y-%m-%d %H:%M:%S')\<close>. The year is written with the digits
  it has, as the C library does; month, day, hour, minute and second are padded to two.
\<close>

definition strftime :: "datetime \<Rightarrow> string" where
  "strftime t =
     dec (year t) @ ''-'' @ pad2 (month t) @ ''-'' @ pad2 (day t) @ '' '' @
     pad2 (hour t) @ '':'' @ pad2 (minute t) @ '':'' @ pad2 (second t)"

subsection \<open>Base64\<close>

type_synonym byte = "8 word"

definition b64_alphabet :: string where
  "b64_alphabet = ''ABCDEFGHIJKLMNOPQRSTUVWXYZabcdefghijklmnopqrstuvwxyz0123456789+/''"

definition b64_char :: "nat \<Rightarrow> char" where
  "b64_char n = b64_alphabet ! (n mod 64)"

text \<open>
  \<^verbatim>\<open>base64.b64encode(bs).decode('utf-8')\<close>: three bytes give four characters, a
  last group of one or two bytes is padded with \<open>=\<close>; the result is ASCII, so decoding
  it as UTF-8 gives the same characters.
\<close>

fun b64encode :: "byte list \<Rightarrow> string" where
  "b64encode [] = []"
| "b64encode [a] =
     (let n = unat a
      in [b64_char (n div 4), b64_char ((n mod 4) * 16), CHR ''='', CHR ''=''])"
| "b64encode [a, b] =
     (let n = unat a * 256 + unat b
      in [b64_char (n div 1024), b64_char (n div 16), b64_char ((n mod 16) * 4), CHR ''=''])"
| "b64encode (a # b # c # rest) =
     (let n = unat a * 65536 + unat b * 256 + unat c
      in [b64_char (n div 262144), b64_char (n div 4096), b64_char (n div 64), b64_char n]
         @ b64encode rest)"

subsection \<open>Collaborators and process state\<close>

text \<open>
  The result of the solar-position calculator is a table: column name to column values.
  \<^verbatim>\<open>df[col][0]\<close> raises \<^verbatim>\<open>KeyError\<close> when the column is missing and
  \<^verbatim>\<open>IndexError\<close> when it has no row.
\<close>

type_synonym dataframe = "string \<rightharpoonup> float64 list"

definition df_first :: "dataframe \<Rightarrow> string \<Rightarrow> exn + float64" where
  "df_first df col =
     (case df col of
        None \<Rightarrow> Inl (KeyError col)
      | Some [] \<Rightarrow> Inl (IndexError ''index 0 is out of bounds for axis 0 with size 0'')
      | Some (v # _) \<Rightarrow> Inr v)"

text \<open>A stored document and a JSON object are dictionaries with string keys.\<close>

datatype 'blob field = Time datetime | Blob 'blob

type_synonym 'blob document = "(string \<times> 'blob field) list"

datatype level = INFO | ERROR

record response =
  status :: nat
  body :: "(string \<times> string) list"
  headers :: "string \<rightharpoonup> string"

text \<open>
  The collaborators. \<open>heatmap_png\<close> is the figure, \<^verbatim>\<open>sns.heatmap\<close> and
  \<^verbatim>\<open>savefig\<close> of \<^verbatim>\<open>generate_heatmap\<close>; \<open>surface_png\<close> is the colour map, the
  3-D axes, \<^verbatim>\<open>plot_surface\<close> and \<^verbatim>\<open>savefig\<close> of \<^verbatim>\<open>generate_surface_plot\<close>, given
  X, Y, the shadow matrix and the normalised terrain. \<open>insert_one\<close> acts on the store
  and may change it even when it raises.
\<close>

record ('blob, 'db) externals =
  get_solarposition :: "datetime \<Rightarrow> float64 \<Rightarrow> float64 \<Rightarrow> exn + dataframe"
  shadowingfunction_wallheight_13 ::
    "ndarray \<Rightarrow> float64 \<Rightarrow> float64 \<Rightarrow> int \<Rightarrow> ndarray \<Rightarrow> ndarray \<Rightarrow> exn + ndarray list"
  pickle_dumps :: "ndarray \<Rightarrow> exn + 'blob"
  gzip_compress :: "'blob \<Rightarrow> exn + 'blob"
  insert_one :: "'db \<Rightarrow> string \<Rightarrow> 'blob document \<Rightarrow> (exn + unit) \<times> 'db"
  heatmap_png :: "ndarray \<Rightarrow> exn + byte list"
  surface_png :: "ndarray \<Rightarrow> ndarray \<Rightarrow> ndarray \<Rightarrow> ndarray \<Rightarrow> exn + byte list"

text \<open>The module-level names the handler reads, and the log.\<close>

record 'db process =
  db :: 'db
  latitude :: float64
  longitude :: float64
  dsm :: ndarray
  log :: "(level \<times> string) list"

definition logging_info :: "'db process \<Rightarrow> string \<Rightarrow> 'db process" where
  "logging_info p msg = p\<lparr>log := log p @ [(INFO, msg)]\<rparr>"

definition logging_error :: "'db process \<Rightarrow> string \<Rightarrow> 'db process" where
  "logging_error p msg = p\<lparr>log := log p @ [(ERROR, msg)]\<rparr>"

subsection \<open>The functions of analysis.py\<close>

definition calculate_shadow_matrix ::
  "('blob, 'db) externals \<Rightarrow> 'db process \<Rightarrow> datetime \<Rightarrow> exn + ndarray" where
  "calculate_shadow_matrix ext p timestamp =
     (case get_solarposition ext timestamp (latitude p) (longitude p) of
        Inl e \<Rightarrow> Inl e
      | Inr df_solar \<Rightarrow>
     (case df_first df_solar ''elevation'' of
        Inl e \<Rightarrow> Inl e
      | Inr altitude \<Rightarrow>
     (case df_first df_solar ''azimuth'' of
        Inl e \<Rightarrow> Inl e
      | Inr azimuth \<Rightarrow>
     (case shape_at (dsm p) 0 of
        Inl e \<Rightarrow> Inl e
      | Inr r \<Rightarrow>
     (case shape_at (dsm p) 1 of
        Inl e \<Rightarrow> Inl e
      | Inr c \<Rightarrow>
        (let scale = 1;
             walls = np_zeros r c;
             dirwalls = np_zeros r c
         in case shadowingfunction_wallheight_13 ext (dsm p) azimuth altitude scale walls
                   (arr_div (arr_mul dirwalls np_pi) (Num 180)) of
              Inl e \<Rightarrow> Inl e
            | Inr outs \<Rightarrow>
                (if length outs = 5 then Inr (outs ! 0)
                 else Inl (ValueError ''wrong number of values to unpack''))))))))"

definition save_shadow_matrix ::
  "('blob, 'db) externals \<Rightarrow> 'db process \<Rightarrow> 'blob document \<Rightarrow> (exn + unit) \<times> 'db process" where
  "save_shadow_matrix ext p doc =
     (let p1 = logging_info p ''Saving shadow matrix to database.'';
          (r, d) = insert_one ext (db p1) ''shadow_matrices'' doc
      in (r, p1\<lparr>db := d\<rparr>))"

definition generate_heatmap :: "('blob, 'db) externals \<Rightarrow> ndarray \<Rightarrow> exn + string" where
  "generate_heatmap ext matrix =
     (case heatmap_png ext matrix of
        Inl e \<Rightarrow> Inl e
      | Inr png \<Rightarrow> Inr (b64encode png))"

text \<open>The normalisation of line 75, operands evaluated left to right.\<close>

definition normalize_dsm :: "ndarray \<Rightarrow> exn + ndarray" where
  "normalize_dsm d =
     (case np_min d of
        Inl e \<Rightarrow> Inl e
      | Inr lo \<Rightarrow>
     (case np_max d of
        Inl e \<Rightarrow> Inl e
      | Inr hi \<Rightarrow>
     (case np_min d of
        Inl e \<Rightarrow> Inl e
      | Inr lo' \<Rightarrow> Inr (arr_div (arr_sub d lo) (fsub hi lo')))))"

definition generate_surface_plot ::
  "('blob, 'db) externals \<Rightarrow> 'db process \<Rightarrow> ndarray \<Rightarrow> exn + string" where
  "generate_surface_plot ext p shadow_matrix =
     (case shape_at shadow_matrix 1 of
        Inl e \<Rightarrow> Inl e
      | Inr c \<Rightarrow>
     (case shape_at shadow_matrix 0 of
        Inl e \<Rightarrow> Inl e
      | Inr r \<Rightarrow>
        (let x = np_linspace 0 (real_of_int (int c - 1)) c;
             y = np_linspace 0 (real_of_int (int r - 1)) r;
             (X, Y) = np_meshgrid x y
         in case normalize_dsm (dsm p) of
              Inl e \<Rightarrow> Inl e
            | Inr dsm_normalized \<Rightarrow>
                (case surface_png ext X Y shadow_matrix dsm_normalized of
                   Inl e \<Rightarrow> Inl e
                 | Inr png \<Rightarrow> Inr (b64encode png)))))"

definition compress_data :: "('blob, 'db) externals \<Rightarrow> ndarray \<Rightarrow> exn + 'blob" where
  "compress_data ext d =
     (case pickle_dumps ext d of
        Inl e \<Rightarrow> Inl e
      | Inr pickled \<Rightarrow> gzip_compress ext pickled)"

text \<open>\<^verbatim>\<open>jsonify(d)\<close>: a 200 response carrying the dictionary as JSON.\<close>

definition jsonify :: "(string \<times> string) list \<Rightarrow> response" where
  "jsonify d = \<lparr>status = 200, body = d, headers = [''Content-Type'' \<mapsto> ''application/json'']\<rparr>"

text \<open>
  The \<^verbatim>\<open>try\<close> block of the handler: the document is built (compressing the matrix),
  then saved; an exception from either is logged by the \<^verbatim>\<open>except\<close> clause.
\<close>

definition archive ::
  "('blob, 'db) externals \<Rightarrow> 'db process \<Rightarrow> datetime \<Rightarrow> ndarray \<Rightarrow> 'db process" where
  "archive ext p timestamp shadow_matrix =
     (case compress_data ext shadow_matrix of
        Inl e \<Rightarrow>
          logging_error p (''Failed to save shadow matrix to database. Error: '' @ str_exn e)
      | Inr compressed \<Rightarrow>
          (case save_shadow_matrix ext p
                  [(''timestamp'', Time timestamp), (''shadow_matrix'', Blob compressed)] of
             (Inl e, p') \<Rightarrow>
               logging_error p' (''Failed to save shadow matrix to database. Error: '' @ str_exn e)
           | (Inr _, p') \<Rightarrow> logging_info p' ''Shadow matrix saved successfully.''))"

text \<open>
  The handler of \<^verbatim>\<open>GET /calculate-shadow\<close>. \<open>now\<close> is what \<^verbatim>\<open>datetime.now()\<close>
  returns; \<open>Inl e\<close> is an exception that leaves the handler (a failed request).
\<close>

definition calculate_shadow ::
  "('blob, 'db) externals \<Rightarrow> 'db process \<Rightarrow> datetime \<Rightarrow> (exn + response) \<times> 'db process" where
  "calculate_shadow ext p now =
     (let timestamp = now
      in case calculate_shadow_matrix ext p timestamp of
           Inl e \<Rightarrow> (Inl e, p)
         | Inr shadow_matrix \<Rightarrow>
             (let p1 = archive ext p timestamp shadow_matrix
              in case generate_heatmap ext shadow_matrix of
                   Inl e \<Rightarrow> (Inl e, p1)
                 | Inr heatmap \<Rightarrow>
                     (case generate_surface_plot ext p1 shadow_matrix of
                        Inl e \<Rightarrow> (Inl e, p1)
                      | Inr surface_plot \<Rightarrow>
                          (let formatted_time = strftime timestamp;
                               response = jsonify [(''timestamp'', formatted_time),
                                                   (''heatmap'', heatmap),
                                                   (''surface_plot'', surface_plot)]
                           in (Inr (response\<lparr>headers :=
                                      (headers response)(''Content-Type'' \<mapsto> ''application/json'')\<rparr>),
                               p1)))))"

text \<open>
  The start-up block: the loaded array is normalised and bound to \<^verbatim>\<open>dsm\<close>, with the
  fixed location.
\<close>

definition startup :: "'db \<Rightarrow> ndarray \<Rightarrow> 'db process" where
  "startup database loaded =
     \<lparr>db = database,
      latitude = Num (2973463 / 100000),
      longitude = Num (- (9530052 / 100000)),
      dsm = nan_to_num loaded (Num 0),
      log = []\<rparr>"

subsection \<open>The calls a request makes\<close>

text \<open>
  The same functions once more, each returning besides its result the collaborator calls
  it made, in order, with the arguments it passed. \<open>clock k\<close> is what the k-th call of
  \<^verbatim>\<open>datetime.now()\<close> returns, counted from 0; \<open>Now t\<close> records a call that returned
  \<open>t\<close>.
\<close>

datatype 'blob call =
    Now datetime
  | Get_solarposition datetime float64 float64
  | Shadowingfunction ndarray float64 float64 int ndarray ndarray
  | Pickle_dumps ndarray
  | Gzip_compress 'blob
  | Insert_one string "'blob document"
  | Heatmap_png ndarray
  | Surface_png ndarray ndarray ndarray ndarray

definition calculate_shadow_matrix_calls ::
  "('blob, 'db) externals \<Rightarrow> 'db process \<Rightarrow> datetime \<Rightarrow> (exn + ndarray) \<times> 'blob call list" where
  "calculate_shadow_matrix_calls ext p timestamp =
     (let sun = [Get_solarposition timestamp (latitude p) (longitude p)]
      in case get_solarposition ext timestamp (latitude p) (longitude p) of
        Inl e \<Rightarrow> (Inl e, sun)
      | Inr df_solar \<Rightarrow>
     (case df_first df_solar ''elevation'' of
        Inl e \<Rightarrow> (Inl e, sun)
      | Inr altitude \<Rightarrow>
     (case df_first df_solar ''azimuth'' of
        Inl e \<Rightarrow> (Inl e, sun)
      | Inr azimuth \<Rightarrow>
     (case shape_at (dsm p) 0 of
        Inl e \<Rightarrow> (Inl e, sun)
      | Inr r \<Rightarrow>
     (case shape_at (dsm p) 1 of
        Inl e \<Rightarrow> (Inl e, sun)
      | Inr c \<Rightarrow>
        (let scale = 1;
             walls = np_zeros r c;
             dirwalls = np_zeros r c;
             scaled = arr_div (arr_mul dirwalls np_pi) (Num 180);
             calls = sun @ [Shadowingfunction (dsm p) azimuth altitude scale walls scaled]
         in case shadowingfunction_wallheight_13 ext (dsm p) azimuth altitude scale walls scaled of
              Inl e \<Rightarrow> (Inl e, calls)
            | Inr outs \<Rightarrow>
                (if length outs = 5 then Inr (outs ! 0)
                 else Inl (ValueError ''wrong number of values to unpack''), calls)))))))"

definition compress_data_calls ::
  "('blob, 'db) externals \<Rightarrow> ndarray \<Rightarrow> (exn + 'blob) \<times> 'blob call list" where
  "compress_data_calls ext d =
     (case pickle_dumps ext d of
        Inl e \<Rightarrow> (Inl e, [Pickle_dumps d])
      | Inr pickled \<Rightarrow> (gzip_compress ext pickled, [Pickle_dumps d, Gzip_compress pickled]))"

definition save_shadow_matrix_calls ::
  "('blob, 'db) externals \<Rightarrow> 'db process \<Rightarrow> 'blob document \<Rightarrow>
   ((exn + unit) \<times> 'db process) \<times> 'blob call list" where
  "save_shadow_matrix_calls ext p doc =
     (let p1 = logging_info p ''Saving shadow matrix to database.'';
          (r, d) = insert_one ext (db p1) ''shadow_matrices'' doc
      in ((r, p1\<lparr>db := d\<rparr>), [Insert_one ''shadow_matrices'' doc]))"

definition archive_calls ::
  "('blob, 'db) externals \<Rightarrow> 'db process \<Rightarrow> datetime \<Rightarrow> ndarray \<Rightarrow>
   'db process \<times> 'blob call list" where
  "archive_calls ext p timestamp shadow_matrix =
     (case compress_data_calls ext shadow_matrix of
        (Inl e, cs) \<Rightarrow>
          (logging_error p (''Failed to save shadow matrix to database. Error: '' @ str_exn e), cs)
      | (Inr compressed, cs) \<Rightarrow>
          (case save_shadow_matrix_calls ext p
                  [(''timestamp'', Time timestamp), (''shadow_matrix'', Blob compressed)] of
             ((Inl e, p'), cs') \<Rightarrow>
               (logging_error p'
                  (''Failed to save shadow matrix to database. Error: '' @ str_exn e), cs @ cs')
           | ((Inr _, p'), cs') \<Rightarrow>
               (logging_info p' ''Shadow matrix saved successfully.'', cs @ cs')))"

definition generate_heatmap_calls ::
  "('blob, 'db) externals \<Rightarrow> ndarray \<Rightarrow> (exn + string) \<times> 'blob call list" where
  "generate_heatmap_calls ext matrix =
     (case heatmap_png ext matrix of
        Inl e \<Rightarrow> (Inl e, [Heatmap_png matrix])
      | Inr png \<Rightarrow> (Inr (b64encode png), [Heatmap_png matrix]))"

definition generate_surface_plot_calls ::
  "('blob, 'db) externals \<Rightarrow> 'db process \<Rightarrow> ndarray \<Rightarrow> (exn + string) \<times> 'blob call list" where
  "generate_surface_plot_calls ext p shadow_matrix =
     (case shape_at shadow_matrix 1 of
        Inl e \<Rightarrow> (Inl e, [])
      | Inr c \<Rightarrow>
     (case shape_at shadow_matrix 0 of
        Inl e \<Rightarrow> (Inl e, [])
      | Inr r \<Rightarrow>
        (let x = np_linspace 0 (real_of_int (int c - 1)) c;
             y = np_linspace 0 (real_of_int (int r - 1)) r;
             (X, Y) = np_meshgrid x y
         in case normalize_dsm (dsm p) of
              Inl e \<Rightarrow> (Inl e, [])
            | Inr dsm_normalized \<Rightarrow>
                (case surface_png ext X Y shadow_matrix dsm_normalized of
                   Inl e \<Rightarrow> (Inl e, [Surface_png X Y shadow_matrix dsm_normalized])
                 | Inr png \<Rightarrow>
                     (Inr (b64encode png), [Surface_png X Y shadow_matrix dsm_normalized])))))"

definition calculate_shadow_calls ::
  "('blob, 'db) externals \<Rightarrow> (nat \<Rightarrow> datetime) \<Rightarrow> 'db process \<Rightarrow>
   ((exn + response) \<times> 'db process) \<times> 'blob call list" where
  "calculate_shadow_calls ext clock p =
     (let timestamp = clock 0;
          c0 = [Now timestamp]
      in case calculate_shadow_matrix_calls ext p timestamp of
           (Inl e, c1) \<Rightarrow> ((Inl e, p), c0 @ c1)
         | (Inr shadow_matrix, c1) \<Rightarrow>
             (let (p1, c2) = archive_calls ext p timestamp shadow_matrix
              in case generate_heatmap_calls ext shadow_matrix of
                   (Inl e, c3) \<Rightarrow> ((Inl e, p1), c0 @ c1 @ c2 @ c3)
                 | (Inr heatmap, c3) \<Rightarrow>
                     (case generate_surface_plot_calls ext p1 shadow_matrix of
                        (Inl e, c4) \<Rightarrow> ((Inl e, p1), c0 @ c1 @ c2 @ c3 @ c4)
                      | (Inr surface_plot, c4) \<Rightarrow>
                          (let formatted_time = strftime timestamp;
                               response = jsonify [(''timestamp'', formatted_time),
                                                   (''heatmap'', heatmap),
                                                   (''surface_plot'', surface_plot)]
                           in ((Inr (response\<lparr>headers :=
                                       (headers response)(''Content-Type'' \<mapsto> ''application/json'')\<rparr>),
                                p1),
                               c0 @ c1 @ c2 @ c3 @ c4)))))"

text \<open>
  What a sequence of calls says: the times \<^verbatim>\<open>datetime.now()\<close> returned, the times
  handed to the calculator, the height fields handed to the shadow algorithm, the arrays
  handed to the serialiser and to the two renderers, and the documents handed to the store.
\<close>

fun clock_read :: "'blob call \<Rightarrow> datetime list" where
  "clock_read (Now t) = [t]"
| "clock_read _ = []"

fun solar_time :: "'blob call \<Rightarrow> datetime list" where
  "solar_time (Get_solarposition t la lo) = [t]"
| "solar_time _ = []"

fun shadow_run :: "'blob call \<Rightarrow> ndarray list" where
  "shadow_run (Shadowingfunction a az al s w d) = [a]"
| "shadow_run _ = []"

fun pickled_array :: "'blob call \<Rightarrow> ndarray list" where
  "pickled_array (Pickle_dumps a) = [a]"
| "pickled_array _ = []"

fun rendered_array :: "'blob call \<Rightarrow> ndarray list" where
  "rendered_array (Heatmap_png a) = [a]"
| "rendered_array (Surface_png X Y a n) = [a]"
| "rendered_array _ = []"

fun inserted_document :: "'blob call \<Rightarrow> 'blob document list" where
  "inserted_document (Insert_one coll doc) = [doc]"
| "inserted_document _ = []"

definition clock_reads :: "'blob call list \<Rightarrow> datetime list" where
  "clock_reads cs = concat (map clock_read cs)"

definition solar_times :: "'blob call list \<Rightarrow> datetime list" where
  "solar_times cs = concat (map solar_time cs)"

definition shadow_runs :: "'blob call list \<Rightarrow> ndarray list" where
  "shadow_runs cs = concat (map shadow_run cs)"

definition pickled :: "'blob call list \<Rightarrow> ndarray list" where
  "pickled cs = concat (map pickled_array cs)"

definition rendered :: "'blob call list \<Rightarrow> ndarray list" where
  "rendered cs = concat (map rendered_array cs)"

definition inserted :: "'blob call list \<Rightarrow> 'blob document list" where
  "inserted cs = concat (map inserted_document cs)"

subsection \<open>Shapes of the response fields\<close>

text \<open>
  The constraints Python's \<^verbatim>\<open>datetime\<close> puts on its fields, the layout
  \<^verbatim>\<open>YYYY-MM-DD HH:MM:SS\<close> with the reader of a time stamp, and the decoder of
  base64 text.
\<close>

definition valid_datetime :: "datetime \<Rightarrow> bool" where
  "valid_datetime t =
     (1 \<le> year t \<and> year t \<le> 9999 \<and> 1 \<le> month t \<and> month t \<le> 12 \<and>
      1 \<le> day t \<and> day t \<le> 31 \<and> hour t < 24 \<and> minute t < 60 \<and> second t < 60 \<and>
      microsecond t < 1000000)"

definition is_digit :: "char \<Rightarrow> bool" where
  "is_digit ch = (ch \<in> set ''0123456789'')"

text \<open>
  A string fits a layout when it has a digit wherever the layout has \<open>D\<close> and the
  layout's own character everywhere else.
\<close>

fun fits_layout :: "string \<Rightarrow> string \<Rightarrow> bool" where
  "fits_layout [] [] = True"
| "fits_layout (l # ls) (ch # chs) =
     ((if l = CHR ''D'' then is_digit ch else ch = l) \<and> fits_layout ls chs)"
| "fits_layout _ _ = False"

definition timestamp_layout :: "string \<Rightarrow> bool" where
  "timestamp_layout s = fits_layout ''DDDD-DD-DD DD:DD:DD'' s"

text \<open>
  Reading a time stamp back, as \<^verbatim>\<open>datetime.strptime(s, '%Y-%m-%d %H:%M:%S')\<close> does:
  the decimal numbers at the six positions of the layout.
\<close>

definition digit_value :: "char \<Rightarrow> nat" where
  "digit_value ch = of_char ch - 48"

definition read_nat :: "string \<Rightarrow> nat" where
  "read_nat s = foldl (\<lambda>n ch. 10 * n + digit_value ch) 0 s"

definition strptime :: "string \<Rightarrow> (nat \<times> nat \<times> nat \<times> nat \<times> nat \<times> nat) option" where
  "strptime s =
     (if timestamp_layout s
      then Some (read_nat (take 4 s), read_nat (take 2 (drop 5 s)), read_nat (take 2 (drop 8 s)),
                 read_nat (take 2 (drop 11 s)), read_nat (take 2 (drop 14 s)),
                 read_nat (take 2 (drop 17 s)))
      else None)"

text \<open>
  Decoding base64, as \<^verbatim>\<open>base64.b64decode\<close> does on well-formed text: the value of a
  character is read off its code (A-Z, a-z, 0-9, +, /), four characters give three bytes,
  and a last group ending in one or two \<open>=\<close> gives two bytes or one. Text of any other
  shape is refused.
\<close>

definition b64_value :: "char \<Rightarrow> nat option" where
  "b64_value ch =
     (let n = (of_char ch :: nat)
      in if 65 \<le> n \<and> n \<le> 90 then Some (n - 65)
         else if 97 \<le> n \<and> n \<le> 122 then Some (n - 71)
         else if 48 \<le> n \<and> n \<le> 57 then Some (n + 4)
         else if n = 43 then Some 62
         else if n = 47 then Some 63
         else None)"

fun b64decode :: "string \<Rightarrow> byte list option" where
  "b64decode [] = Some []"
| "b64decode (c1 # c2 # c3 # c4 # rest) =
     (case (b64_value c1, b64_value c2) of
        (Some v1, Some v2) \<Rightarrow>
          (if rest = [] \<and> c3 = CHR ''='' \<and> c4 = CHR ''=''
           then Some [of_nat (v1 * 4 + v2 div 16)]
           else
             (case b64_value c3 of
                None \<Rightarrow> None
              | Some v3 \<Rightarrow>
                  (if rest = [] \<and> c4 = CHR ''=''
                   then Some [of_nat (v1 * 4 + v2 div 16), of_nat (v2 mod 16 * 16 + v3 div 4)]
                   else
                     (case b64_value c4 of
                        None \<Rightarrow> None
                      | Some v4 \<Rightarrow>
                          (case b64decode rest of
                             None \<Rightarrow> None
                           | Some bytes \<Rightarrow>
                               Some (of_nat (v1 * 4 + v2 div 16) #
                                     of_nat (v2 mod 16 * 16 + v3 div 4) #
                                     of_nat (v3 mod 4 * 64 + v4) # bytes))))))
      | _ \<Rightarrow> None)"
| "b64decode _ = None"

text \<open>What the comment on the normalisation promises of a sample: between 0 and 1.\<close>

fun between_0_and_1 :: "float64 \<Rightarrow> bool" where
  "between_0_and_1 (Num r) = (0 \<le> r \<and> r \<le> 1)"
| "between_0_and_1 _ = False"

subsection \<open>Test doubles\<close>

text \<open>
  Collaborators for concrete runs: a sun at elevation 45 and azimuth 180, a shadow
  algorithm that returns five zero arrays of the shape of its height field, identity
  codecs, a store that appends, and renderers that return a few bytes.
\<close>

type_synonym demo_store = "(string \<times> ndarray document) list"

definition demo_ext :: "(ndarray, demo_store) externals" where
  "demo_ext =
     \<lparr>get_solarposition =
        (\<lambda>t la lo. Inr [''elevation'' \<mapsto> [Num 45], ''azimuth'' \<mapsto> [Num 180]]),
      shadowingfunction_wallheight_13 =
        (\<lambda>a az al s w d. Inr (replicate 5 (a\<lparr>data := map (\<lambda>_. Num 0) (data a)\<rparr>))),
      pickle_dumps = Inr,
      gzip_compress = Inr,
      insert_one = (\<lambda>d coll doc. (Inr (), d @ [(coll, doc)])),
      heatmap_png = (\<lambda>m. Inr [0x89, 0x50, 0x4E, 0x47]),
      surface_png = (\<lambda>X Y m n. Inr [0x89, 0x50, 0x4E, 0x47, 0x0D])\<rparr>"

text \<open>The same with the store down, the calculator down, a table without azimuth,
  and a shadow algorithm that raises.\<close>

definition outage_ext :: "(ndarray, demo_store) externals" where
  "outage_ext = demo_ext\<lparr>insert_one := (\<lambda>d coll doc. (Inl (External ''connection refused''), d))\<rparr>"

definition no_sun_ext :: "(ndarray, demo_store) externals" where
  "no_sun_ext = demo_ext\<lparr>get_solarposition := (\<lambda>t la lo. Inl (External ''no ephemeris''))\<rparr>"

definition no_azimuth_ext :: "(ndarray, demo_store) externals" where
  "no_azimuth_ext = demo_ext\<lparr>get_solarposition := (\<lambda>t la lo. Inr [''elevation'' \<mapsto> [Num 45]])\<rparr>"

definition bad_shadow_ext :: "(ndarray, demo_store) externals" where
  "bad_shadow_ext =
     demo_ext\<lparr>shadowingfunction_wallheight_13 :=
                (\<lambda>a az al s w d. Inl (External ''operands could not be broadcast together''))\<rparr>"

definition demo_now :: datetime where
  "demo_now = \<lparr>year = 2024, month = 3, day = 5, hour = 14, minute = 7, second = 9,
               microsecond = 123456\<rparr>"

text \<open>A clock that advances by a second with every reading, starting at \<open>demo_now\<close>.\<close>

definition demo_clock :: "nat \<Rightarrow> datetime" where
  "demo_clock k = demo_now\<lparr>second := 9 + k\<rparr>"

text \<open>A flat 3 by 3 terrain, as served, and a loaded 2 by 2 array with a hole in it.\<close>

definition flat_process :: "demo_store process" where
  "flat_process = startup [] (np_zeros 3 3)"

definition holed_array :: ndarray where
  "holed_array = \<lparr>shape = [2, 2], data = [Num 1, NaN, Num 3, Num 4]\<rparr>"

text \<open>The response expected from the test doubles at \<open>demo_now\<close>.\<close>

definition demo_response :: response where
  "demo_response =
     \<lparr>status = 200,
      body = [(''timestamp'', ''2024-03-05 14:07:09''), (''heatmap'', ''iVBORw==''),
              (''surface_plot'', ''iVBORw0='')],
      headers = [''Content-Type'' \<mapsto> ''application/json'']\<rparr>"

section \<open>Properties\<close>

text \<open>\<open>dec\<close> is unfolded by hand: its equation is recursive without a pattern.\<close>

declare dec.simps [simp del]

subsection \<open>What the archival step can and cannot touch\<close>

lemma archive_dsm: "dsm (archive ext p t m) = dsm p"
  by (auto simp add: archive_def save_shadow_matrix_def logging_info_def logging_error_def
      split: sum.splits prod.splits)

lemma archive_location:
  "latitude (archive ext p t m) = latitude p \<and> longitude (archive ext p t m) = longitude p"
  by (auto simp add: archive_def save_shadow_matrix_def logging_info_def logging_error_def
      split: sum.splits prod.splits)

lemma generate_surface_plot_cong:
  assumes "dsm p' = dsm p"
  shows "generate_surface_plot ext p' m = generate_surface_plot ext p m"
  unfolding generate_surface_plot_def assms ..

lemma calculate_shadow_matrix_indep:
  "calculate_shadow_matrix (ext\<lparr>insert_one := ins, pickle_dumps := pd, gzip_compress := gz\<rparr>) p now
     = calculate_shadow_matrix ext p now"
  by (simp add: calculate_shadow_matrix_def cong: sum.case_cong)

subsection \<open>Failure before the matrix exists\<close>

text \<open>
  C2. When \<^verbatim>\<open>calculate_shadow_matrix\<close> raises (the calculator, the table lookup or the
  shadow algorithm), the handler raises the same exception: there is no response, and the
  process state, store and log included, is what it was. This holds whatever the
  serialiser, the compressor and the store would have done, so none of them was called.
\<close>

theorem failed_compute_fails_request:
  assumes "calculate_shadow_matrix ext p now = Inl e"
  shows "calculate_shadow ext p now = (Inl e, p) \<and>
         calculate_shadow (ext\<lparr>insert_one := ins, pickle_dumps := pd, gzip_compress := gz\<rparr>) p now
           = (Inl e, p)"
  using assms by (simp add: calculate_shadow_def calculate_shadow_matrix_indep)

theorem failed_compute_fails_request_witness:
  "calculate_shadow_matrix no_sun_ext flat_process demo_now = Inl (External ''no ephemeris'') \<and>
   calculate_shadow no_sun_ext flat_process demo_now
     = (Inl (External ''no ephemeris''), flat_process) \<and>
   calculate_shadow_matrix bad_shadow_ext flat_process demo_now
     = Inl (External ''operands could not be broadcast together'') \<and>
   calculate_shadow bad_shadow_ext flat_process demo_now
     = (Inl (External ''operands could not be broadcast together''), flat_process)"
proof -
  have sun: "calculate_shadow_matrix no_sun_ext flat_process demo_now
               = Inl (External ''no ephemeris'')"
    by (simp add: calculate_shadow_matrix_def no_sun_ext_def demo_ext_def)
  have alg: "calculate_shadow_matrix bad_shadow_ext flat_process demo_now
               = Inl (External ''operands could not be broadcast together'')"
    by (simp add: calculate_shadow_matrix_def bad_shadow_ext_def demo_ext_def flat_process_def
        startup_def nan_to_num_def np_zeros_def shape_at_def df_first_def)
  show ?thesis
    using failed_compute_fails_request [OF sun] failed_compute_fails_request [OF alg] sun alg
    by simp
qed

lemma calculate_shadow_dsm: "dsm (snd (calculate_shadow ext p now)) = dsm p"
  by (auto simp add: calculate_shadow_def Let_def archive_dsm split: sum.splits)

subsection \<open>Terrain normalisation at start-up\<close>

lemma nan_to_num1_not_nan:
  "nan_to_num1 (Num z) x \<noteq> NaN \<and> NaN \<noteq> nan_to_num1 (Num z) x"
  by (cases x) simp_all

text \<open>
  C9. The terrain bound at start-up has no not-a-number sample: it has the shape and the
  number of samples of the loaded array, every not-a-number sample has become zero and
  every finite sample is kept. Serving a request leaves the terrain as it is.
\<close>

theorem terrain_has_no_nan:
  "NaN \<notin> set (data (dsm (startup d raw))) \<and>
   shape (dsm (startup d raw)) = shape raw \<and>
   length (data (dsm (startup d raw))) = length (data raw) \<and>
   (\<forall>i<length (data raw).
      (data raw ! i = NaN \<longrightarrow> data (dsm (startup d raw)) ! i = Num 0) \<and>
      (\<forall>r. data raw ! i = Num r \<longrightarrow> data (dsm (startup d raw)) ! i = Num r)) \<and>
   dsm (snd (calculate_shadow ext (startup d raw) now)) = dsm (startup d raw)"
  by (auto simp add: startup_def nan_to_num_def calculate_shadow_dsm nan_to_num1_not_nan)

theorem terrain_has_no_nan_witness:
  "dsm (startup [] holed_array) = \<lparr>shape = [2, 2], data = [Num 1, Num 0, Num 3, Num 4]\<rparr> \<and>
   NaN \<notin> set (data (dsm (startup ([]::demo_store) holed_array))) \<and>
   data holed_array ! 1 = NaN \<and> data (dsm (startup ([]::demo_store) holed_array)) ! 1 = Num 0 \<and>
   dsm (snd (calculate_shadow demo_ext (startup [] holed_array) demo_now))
     = dsm (startup [] holed_array)"
  using terrain_has_no_nan [of "[]::demo_store" holed_array demo_ext demo_now]
  by (simp add: holed_array_def startup_def nan_to_num_def)

subsection \<open>The shadow engine adapter\<close>

lemma first_of_five: "length outs = 5 \<Longrightarrow> outs ! 0 = hd outs"
  by (cases outs) simp_all

text \<open>
  C4. With the sun resolved to (elevation, azimuth) and a terrain of r rows and c columns,
  both auxiliary arrays are \<^verbatim>\<open>np.zeros\<close> of the terrain's shape, r * c zeros each;
  scaling the direction array by pi and dividing by 180 leaves it all zero; the algorithm
  is called once with (terrain, azimuth, elevation, 1, walls, scaled directions); and of
  its five outputs the first is returned.
\<close>

theorem adapter_call:
  assumes sun: "get_solarposition ext now (latitude p) (longitude p) = Inr df"
      and el: "df_first df ''elevation'' = Inr elevation"
      and az: "df_first df ''azimuth'' = Inr azimuth"
      and dims: "shape (dsm p) = [r, c]"
  shows "shape (np_zeros r c) = shape (dsm p) \<and>
         data (np_zeros r c) = replicate (r * c) (Num 0) \<and>
         arr_div (arr_mul (np_zeros r c) np_pi) (Num 180) = np_zeros r c \<and>
         calculate_shadow_matrix ext p now =
           (case shadowingfunction_wallheight_13 ext (dsm p) azimuth elevation 1
                   (np_zeros r c) (arr_div (arr_mul (np_zeros r c) np_pi) (Num 180)) of
              Inl e \<Rightarrow> Inl e
            | Inr outs \<Rightarrow> if length outs = 5 then Inr (hd outs)
                          else Inl (ValueError ''wrong number of values to unpack'')) \<and>
         (\<forall>sh o2 o3 o4 o5.
            shadowingfunction_wallheight_13 ext (dsm p) azimuth elevation 1
              (np_zeros r c) (arr_div (arr_mul (np_zeros r c) np_pi) (Num 180))
              = Inr [sh, o2, o3, o4, o5]
            \<longrightarrow> calculate_shadow_matrix ext p now = Inr sh)"
proof -
  have z: "arr_div (arr_mul (np_zeros r c) np_pi) (Num 180) = np_zeros r c"
    by (simp add: arr_div_def arr_mul_def np_zeros_def np_pi_def)
  have run: "calculate_shadow_matrix ext p now =
           (case shadowingfunction_wallheight_13 ext (dsm p) azimuth elevation 1
                   (np_zeros r c) (arr_div (arr_mul (np_zeros r c) np_pi) (Num 180)) of
              Inl e \<Rightarrow> Inl e
            | Inr outs \<Rightarrow> if length outs = 5 then Inr (hd outs)
                          else Inl (ValueError ''wrong number of values to unpack''))"
    using sun el az dims
    by (auto simp add: calculate_shadow_matrix_def shape_at_def Let_def first_of_five
        split: sum.splits)
  show ?thesis
    using z run dims by (simp add: np_zeros_def)
qed

theorem adapter_call_witness:
  "shape (dsm flat_process) = [3, 3] \<and>
   arr_div (arr_mul (np_zeros 3 3) np_pi) (Num 180) = np_zeros 3 3 \<and>
   shadowingfunction_wallheight_13 demo_ext (dsm flat_process) (Num 180) (Num 45) 1
     (np_zeros 3 3) (np_zeros 3 3) = Inr (replicate 5 (np_zeros 3 3)) \<and>
   calculate_shadow_matrix demo_ext flat_process demo_now = Inr (np_zeros 3 3)"
proof -
  have sun: "get_solarposition demo_ext demo_now (latitude flat_process) (longitude flat_process)
               = Inr [''elevation'' \<mapsto> [Num 45], ''azimuth'' \<mapsto> [Num 180]]"
    by (simp add: demo_ext_def)
  have el: "df_first [''elevation'' \<mapsto> [Num 45], ''azimuth'' \<mapsto> [Num 180]] ''elevation''
              = Inr (Num 45)"
    by (simp add: df_first_def)
  have az: "df_first [''elevation'' \<mapsto> [Num 45], ''azimuth'' \<mapsto> [Num 180]] ''azimuth''
              = Inr (Num 180)"
    by (simp add: df_first_def)
  have dims: "shape (dsm flat_process) = [3, 3]"
    by (simp add: flat_process_def startup_def nan_to_num_def np_zeros_def)
  have call: "shadowingfunction_wallheight_13 demo_ext (dsm flat_process) (Num 180) (Num 45) 1
     (np_zeros 3 3) (np_zeros 3 3) = Inr (replicate 5 (np_zeros 3 3))"
    by (simp add: demo_ext_def flat_process_def startup_def nan_to_num_def np_zeros_def)
  show ?thesis
    using adapter_call [OF sun el az dims] dims call by (simp add: eval_nat_numeral)
qed

text \<open>
  C5. If the shadow algorithm returns, as its first output, an array of the shape of its
  height field, then every shadow matrix the adapter returns has the shape of the terrain.
\<close>

theorem shadow_matrix_has_terrain_shape:
  assumes alg: "\<And>a az al s w d outs.
                  shadowingfunction_wallheight_13 ext a az al s w d = Inr outs \<Longrightarrow> outs \<noteq> [] \<Longrightarrow>
                  shape (hd outs) = shape a"
      and run: "calculate_shadow_matrix ext p now = Inr m"
  shows "shape m = shape (dsm p)"
proof -
  from run obtain az al w d outs where
    call: "shadowingfunction_wallheight_13 ext (dsm p) az al 1 w d = Inr outs"
    and len: "length outs = 5" and m: "m = outs ! 0"
    by (auto simp add: calculate_shadow_matrix_def Let_def split: sum.splits if_splits)
  from len have ne: "outs \<noteq> []" by auto
  from len have "outs ! 0 = hd outs" by (rule first_of_five)
  with alg [OF call ne] m show ?thesis by simp
qed

theorem shadow_matrix_has_terrain_shape_witness:
  "calculate_shadow_matrix demo_ext flat_process demo_now = Inr (np_zeros 3 3) \<and>
   shape (np_zeros 3 3) = shape (dsm flat_process) \<and> shape (dsm flat_process) = [3, 3]"
proof -
  have alg: "\<And>a az al s w d outs.
               shadowingfunction_wallheight_13 demo_ext a az al s w d = Inr outs \<Longrightarrow> outs \<noteq> [] \<Longrightarrow>
               shape (hd outs) = shape a"
    by (auto simp add: demo_ext_def)
  have run: "calculate_shadow_matrix demo_ext flat_process demo_now = Inr (np_zeros 3 3)"
    by (simp add: calculate_shadow_matrix_def demo_ext_def flat_process_def startup_def
        nan_to_num_def np_zeros_def shape_at_def df_first_def)
  have "shape (dsm flat_process) = [3, 3]"
    by (simp add: flat_process_def startup_def nan_to_num_def np_zeros_def)
  with shadow_matrix_has_terrain_shape [OF alg run] run show ?thesis by simp
qed

subsection \<open>The response does not depend on the archival step\<close>

lemma renderers_indep:
  "generate_heatmap (ext\<lparr>insert_one := ins, pickle_dumps := pd, gzip_compress := gz\<rparr>) m
     = generate_heatmap ext m \<and>
   generate_surface_plot (ext\<lparr>insert_one := ins, pickle_dumps := pd, gzip_compress := gz\<rparr>) p m
     = generate_surface_plot ext p m"
  by (simp add: generate_heatmap_def generate_surface_plot_def cong: sum.case_cong)

lemma calculate_shadow_state:
  "calculate_shadow_matrix ext p now = Inr m \<Longrightarrow> snd (calculate_shadow ext p now) = archive ext p now m"
  by (auto simp add: calculate_shadow_def Let_def split: sum.splits)

lemma calculate_shadow_response:
  "fst (calculate_shadow ext p now) =
     (case calculate_shadow_matrix ext p now of
        Inl e \<Rightarrow> Inl e
      | Inr m \<Rightarrow>
          (case generate_heatmap ext m of
             Inl e \<Rightarrow> Inl e
           | Inr heatmap \<Rightarrow>
               (case generate_surface_plot ext p m of
                  Inl e \<Rightarrow> Inl e
                | Inr surface_plot \<Rightarrow>
                    Inr \<lparr>status = 200,
                         body = [(''timestamp'', strftime now), (''heatmap'', heatmap),
                                 (''surface_plot'', surface_plot)],
                         headers = [''Content-Type'' \<mapsto> ''application/json'']\<rparr>)))"
  by (auto simp add: calculate_shadow_def Let_def jsonify_def
      generate_surface_plot_cong [OF archive_dsm] split: sum.splits)

lemma response_indep:
  "fst (calculate_shadow (ext\<lparr>insert_one := ins, pickle_dumps := pd, gzip_compress := gz\<rparr>) p now)
     = fst (calculate_shadow ext p now)"
  by (simp add: calculate_shadow_response calculate_shadow_matrix_indep renderers_indep
      cong: sum.case_cong)

lemma archive_log_failure:
  assumes "compress_data ext m = Inl e \<or>
           (\<exists>z. compress_data ext m = Inr z \<and>
                fst (insert_one ext (db p) ''shadow_matrices''
                       [(''timestamp'', Time now), (''shadow_matrix'', Blob z)]) = Inl e)"
  shows "last (log (archive ext p now m))
           = (ERROR, ''Failed to save shadow matrix to database. Error: '' @ str_exn e)"
  using assms
  by (auto simp add: archive_def save_shadow_matrix_def logging_info_def logging_error_def
      split: sum.splits prod.splits)

lemma archive_log_success:
  assumes "compress_data ext m = Inr z"
      and "fst (insert_one ext (db p) ''shadow_matrices''
                  [(''timestamp'', Time now), (''shadow_matrix'', Blob z)]) = Inr ()"
  shows "last (log (archive ext p now m)) = (INFO, ''Shadow matrix saved successfully.'')"
  using assms
  by (auto simp add: archive_def save_shadow_matrix_def logging_info_def logging_error_def
      split: sum.splits prod.splits)

subsection \<open>Formatting the time stamp and the images\<close>

lemma dec_one: "n < 10 \<Longrightarrow> dec n = [digit n]"
  by (subst dec.simps) simp

lemma dec_two: "10 \<le> n \<Longrightarrow> n < 100 \<Longrightarrow> dec n = [digit (n div 10), digit n]"
  by (subst dec.simps) (simp add: dec_one)

lemma dec_three:
  "100 \<le> n \<Longrightarrow> n < 1000 \<Longrightarrow> dec n = [digit (n div 100), digit (n div 10), digit n]"
  by (subst dec.simps) (simp add: dec_two div_mult2_eq [symmetric])

lemma dec_four:
  "1000 \<le> n \<Longrightarrow> n \<le> 9999 \<Longrightarrow>
   dec n = [digit (n div 1000), digit (n div 100), digit (n div 10), digit n]"
  by (subst dec.simps) (simp add: dec_three div_mult2_eq [symmetric])

lemma pad2_two: "n < 100 \<Longrightarrow> pad2 n = [digit (n div 10), digit n]"
  by (cases "n < 10") (simp_all add: pad2_def dec_one dec_two digit_def)

lemma is_digit_digit: "is_digit (digit n)"
proof -
  have "n mod 10 < length ''0123456789''" by simp
  then have "''0123456789'' ! (n mod 10) \<in> set ''0123456789''" by (rule nth_mem)
  then show ?thesis by (simp only: is_digit_def digit_def)
qed

lemma strftime_digits:
  assumes "valid_datetime t" and "1000 \<le> year t"
  shows "strftime t =
           [digit (year t div 1000), digit (year t div 100), digit (year t div 10), digit (year t),
            CHR ''-'', digit (month t div 10), digit (month t),
            CHR ''-'', digit (day t div 10), digit (day t),
            CHR '' '', digit (hour t div 10), digit (hour t),
            CHR '':'', digit (minute t div 10), digit (minute t),
            CHR '':'', digit (second t div 10), digit (second t)]"
  using assms by (simp add: strftime_def valid_datetime_def dec_four pad2_two)

lemma b64_char_alphabet: "b64_char n \<in> set b64_alphabet"
proof -
  have "n mod 64 < length b64_alphabet" by (simp add: b64_alphabet_def)
  then show ?thesis unfolding b64_char_def by (rule nth_mem)
qed

subsection \<open>Runs with the test doubles\<close>

lemma demo_time: "strftime demo_now = ''2024-03-05 14:07:09''"
proof -
  have "valid_datetime demo_now" and "1000 \<le> year demo_now"
    by (simp_all add: valid_datetime_def demo_now_def)
  then show ?thesis
    by (simp add: strftime_digits) (simp add: demo_now_def digit_def)
qed

lemma demo_matrix:
  "calculate_shadow_matrix demo_ext flat_process demo_now = Inr (np_zeros 3 3)"
  by (simp add: calculate_shadow_matrix_def demo_ext_def flat_process_def startup_def
      nan_to_num_def np_zeros_def shape_at_def df_first_def)

lemma demo_b64: "b64encode [0x89, 0x50, 0x4E, 0x47] = ''iVBORw=='' \<and>
   b64encode [0x89, 0x50, 0x4E, 0x47, 0x0D] = ''iVBORw0=''"
  by (simp add: b64_char_def b64_alphabet_def)

lemma demo_heatmap: "generate_heatmap demo_ext m = Inr ''iVBORw==''"
  using demo_b64 by (simp add: generate_heatmap_def demo_ext_def)

lemma demo_normalize:
  "normalize_dsm (dsm flat_process) = Inr \<lparr>shape = [3, 3], data = replicate 9 NaN\<rparr>"
  by (simp add: normalize_dsm_def flat_process_def startup_def nan_to_num_def np_zeros_def
      np_min_def np_max_def arr_div_def arr_sub_def eval_nat_numeral)

lemma demo_surface: "generate_surface_plot demo_ext flat_process (np_zeros 3 3) = Inr ''iVBORw0=''"
  using demo_b64
  by (simp add: generate_surface_plot_def demo_normalize shape_at_def np_zeros_def np_meshgrid_def
      demo_ext_def)

lemma demo_response_value: "fst (calculate_shadow demo_ext flat_process demo_now) = Inr demo_response"
  by (simp add: calculate_shadow_response demo_matrix demo_heatmap demo_surface demo_time
      demo_response_def)

lemma outage_matrix:
  "calculate_shadow_matrix outage_ext flat_process demo_now = Inr (np_zeros 3 3)"
  by (simp add: calculate_shadow_matrix_def outage_ext_def demo_ext_def flat_process_def
      startup_def nan_to_num_def np_zeros_def shape_at_def df_first_def)

lemma outage_heatmap: "generate_heatmap outage_ext m = Inr ''iVBORw==''"
  using demo_b64 by (simp add: generate_heatmap_def outage_ext_def demo_ext_def)

lemma outage_surface:
  "generate_surface_plot outage_ext flat_process (np_zeros 3 3) = Inr ''iVBORw0=''"
  using demo_b64
  by (simp add: generate_surface_plot_def demo_normalize shape_at_def np_zeros_def np_meshgrid_def
      outage_ext_def demo_ext_def)

lemma outage_response:
  "fst (calculate_shadow outage_ext flat_process demo_now) = Inr demo_response"
  by (simp add: calculate_shadow_response outage_matrix outage_heatmap outage_surface demo_time
      demo_response_def)

lemma demo_archive:
  "archive demo_ext flat_process demo_now (np_zeros 3 3) =
     flat_process\<lparr>db := [(''shadow_matrices'',
                            [(''timestamp'', Time demo_now), (''shadow_matrix'', Blob (np_zeros 3 3))])],
                  log := [(INFO, ''Saving shadow matrix to database.''),
                          (INFO, ''Shadow matrix saved successfully.'')]\<rparr>"
  by (simp add: archive_def compress_data_def save_shadow_matrix_def logging_info_def
      logging_error_def demo_ext_def flat_process_def startup_def)

lemma demo_run:
  "calculate_shadow demo_ext flat_process demo_now =
     (Inr demo_response,
      flat_process\<lparr>db := [(''shadow_matrices'',
                             [(''timestamp'', Time demo_now),
                              (''shadow_matrix'', Blob (np_zeros 3 3))])],
                   log := [(INFO, ''Saving shadow matrix to database.''),
                           (INFO, ''Shadow matrix saved successfully.'')]\<rparr>)"
  using demo_response_value calculate_shadow_state [OF demo_matrix] demo_archive
  by (simp add: prod_eq_iff)

subsection \<open>Archival failure is swallowed\<close>

text \<open>
  C1. Take a request whose shadow matrix was computed and whose archival fails with e,
  in serialisation or compression of the matrix or in the insertion; compare it with the
  same request served with a serialiser, compressor and store for which archival succeeds.
  Both give the same outcome and the same response (time stamp, heatmap, surface plot);
  the failure is logged as an error carrying \<^verbatim>\<open>str(e)\<close> and is not raised, where the
  other run logs the success.
\<close>

theorem archive_failure_swallowed:
  assumes matrix: "calculate_shadow_matrix ext p now = Inr m"
      and fails: "compress_data ext m = Inl e \<or>
                  (\<exists>z. compress_data ext m = Inr z \<and>
                       fst (insert_one ext (db p) ''shadow_matrices''
                              [(''timestamp'', Time now), (''shadow_matrix'', Blob z)]) = Inl e)"
      and works: "compress_data (ext\<lparr>insert_one := ins, pickle_dumps := pd, gzip_compress := gz\<rparr>) m
                    = Inr z'"
                 "fst (ins (db p) ''shadow_matrices''
                         [(''timestamp'', Time now), (''shadow_matrix'', Blob z')]) = Inr ()"
  shows "fst (calculate_shadow ext p now)
           = fst (calculate_shadow (ext\<lparr>insert_one := ins, pickle_dumps := pd, gzip_compress := gz\<rparr>) p now) \<and>
         last (log (snd (calculate_shadow ext p now)))
           = (ERROR, ''Failed to save shadow matrix to database. Error: '' @ str_exn e) \<and>
         last (log (snd (calculate_shadow
                           (ext\<lparr>insert_one := ins, pickle_dumps := pd, gzip_compress := gz\<rparr>) p now)))
           = (INFO, ''Shadow matrix saved successfully.'')"
proof -
  let ?ext' = "ext\<lparr>insert_one := ins, pickle_dumps := pd, gzip_compress := gz\<rparr>"
  have matrix': "calculate_shadow_matrix ?ext' p now = Inr m"
    using matrix by (simp add: calculate_shadow_matrix_indep)
  have ins: "fst (insert_one ?ext' (db p) ''shadow_matrices''
                    [(''timestamp'', Time now), (''shadow_matrix'', Blob z')]) = Inr ()"
    using works(2) by simp
  show ?thesis
    using archive_log_failure [OF fails] archive_log_success [OF works(1) ins]
    by (simp add: response_indep calculate_shadow_state [OF matrix]
        calculate_shadow_state [OF matrix'])
qed

theorem archive_failure_swallowed_witness:
  "fst (calculate_shadow outage_ext flat_process demo_now) = Inr demo_response \<and>
   fst (calculate_shadow
          (outage_ext\<lparr>insert_one := (\<lambda>d coll doc. (Inr (), d @ [(coll, doc)])),
                      pickle_dumps := Inr, gzip_compress := Inr\<rparr>) flat_process demo_now)
     = Inr demo_response \<and>
   last (log (snd (calculate_shadow outage_ext flat_process demo_now)))
     = (ERROR, ''Failed to save shadow matrix to database. Error: connection refused'')"
proof -
  have matrix: "calculate_shadow_matrix outage_ext flat_process demo_now = Inr (np_zeros 3 3)"
    by (rule outage_matrix)
  have fails: "compress_data outage_ext (np_zeros 3 3) = Inl (External ''connection refused'') \<or>
        (\<exists>z. compress_data outage_ext (np_zeros 3 3) = Inr z \<and>
             fst (insert_one outage_ext (db flat_process) ''shadow_matrices''
                    [(''timestamp'', Time demo_now), (''shadow_matrix'', Blob z)])
               = Inl (External ''connection refused''))"
    by (simp add: compress_data_def outage_ext_def demo_ext_def)
  have works: "compress_data
                 (outage_ext\<lparr>insert_one := (\<lambda>d coll doc. (Inr (), d @ [(coll, doc)])),
                             pickle_dumps := Inr, gzip_compress := Inr\<rparr>) (np_zeros 3 3)
                 = Inr (np_zeros 3 3)"
    by (simp add: compress_data_def)
  have stored: "fst ((\<lambda>d coll doc. (Inr (), d @ [(coll, doc)])) (db flat_process) ''shadow_matrices''
                       [(''timestamp'', Time demo_now), (''shadow_matrix'', Blob (np_zeros 3 3))])
                  = Inr ()"
    by simp
  show ?thesis
    using archive_failure_swallowed [OF matrix fails works stored] outage_response
    by simp
qed

subsection \<open>A terrain whose samples are all equal\<close>

lemma foldl_fmin2_const: "\<forall>y\<in>set xs. y = Num v \<Longrightarrow> foldl fmin2 (Num v) xs = Num v"
  by (induction xs) simp_all

lemma foldl_fmax2_const: "\<forall>y\<in>set xs. y = Num v \<Longrightarrow> foldl fmax2 (Num v) xs = Num v"
  by (induction xs) simp_all

lemma normalize_flat:
  assumes "data d = Num v # rest" and "\<forall>y\<in>set rest. y = Num v"
  shows "normalize_dsm d = Inr (d\<lparr>data := replicate (Suc (length rest)) NaN\<rparr>)"
proof -
  have lo: "np_min d = Inr (Num v)" and hi: "np_max d = Inr (Num v)"
    using assms by (simp_all add: np_min_def np_max_def foldl_fmin2_const foldl_fmax2_const)
  have "map (\<lambda>x. fdiv x (Num 0)) (map (\<lambda>x. fsub x (Num v)) rest) = replicate (length rest) NaN"
    using assms(2) by (induction rest) simp_all
  then show ?thesis
    using assms(1) by (simp add: normalize_dsm_def lo hi arr_div_def arr_sub_def)
qed

text \<open>
  C8. At the flat 3 by 3 terrain every sample is 0, so minimum and maximum are both 0 and
  the normalisation divides zero by zero in every sample. Nothing is raised: the result is
  nine not-a-number samples, none of them between 0 and 1, and the surface plot is whatever
  the renderer makes of that array; the request fails only if the renderer does.
\<close>

theorem flat_terrain_normalization:
  "data (dsm flat_process) = replicate 9 (Num 0) \<and>
   np_min (dsm flat_process) = Inr (Num 0) \<and>
   np_max (dsm flat_process) = Inr (Num 0) \<and>
   normalize_dsm (dsm flat_process) = Inr \<lparr>shape = [3, 3], data = replicate 9 NaN\<rparr> \<and>
   \<not> between_0_and_1 NaN \<and>
   generate_surface_plot ext flat_process (np_zeros 3 3) =
     (case surface_png ext
             (fst (np_meshgrid (np_linspace 0 2 3) (np_linspace 0 2 3)))
             (snd (np_meshgrid (np_linspace 0 2 3) (np_linspace 0 2 3)))
             (np_zeros 3 3) \<lparr>shape = [3, 3], data = replicate 9 NaN\<rparr> of
        Inl e \<Rightarrow> Inl e
      | Inr png \<Rightarrow> Inr (b64encode png))"
proof -
  have terrain: "dsm flat_process = \<lparr>shape = [3, 3], data = replicate 9 (Num 0)\<rparr>"
    by (simp add: flat_process_def startup_def nan_to_num_def np_zeros_def)
  have lohi: "np_min (dsm flat_process) = Inr (Num 0)" "np_max (dsm flat_process) = Inr (Num 0)"
    unfolding terrain by (simp_all add: np_min_def np_max_def eval_nat_numeral)
  have plot: "generate_surface_plot ext flat_process (np_zeros 3 3) =
     (case surface_png ext
             (fst (np_meshgrid (np_linspace 0 2 3) (np_linspace 0 2 3)))
             (snd (np_meshgrid (np_linspace 0 2 3) (np_linspace 0 2 3)))
             (np_zeros 3 3) \<lparr>shape = [3, 3], data = replicate 9 NaN\<rparr> of
        Inl e \<Rightarrow> Inl e
      | Inr png \<Rightarrow> Inr (b64encode png))"
    by (simp add: generate_surface_plot_def demo_normalize shape_at_def np_zeros_def
        split_beta Let_def)
  show ?thesis
    using terrain lohi demo_normalize plot by simp
qed

subsection \<open>Reading the response fields back\<close>

lemma mod_part: "x < m \<Longrightarrow> (x + k * m) mod m = (x::nat)"
  by simp

lemma div_part: "x < m \<Longrightarrow> (x + k * m) div m = (k::nat)"
  by simp

lemma two_digits: "10 * (n div 10 mod 10) + n mod 10 = n" if "n < 100" for n :: nat
proof -
  from that have "n div 10 < 10" by simp
  then have "n div 10 mod 10 = n div 10" by simp
  then show ?thesis by simp
qed

lemma four_digits:
  "1000 * (n div 1000 mod 10) + 100 * (n div 100 mod 10) + 10 * (n div 10 mod 10) + n mod 10 = n"
  if "n \<le> 9999" for n :: nat
proof -
  have d1: "n div 10 * 10 + n mod 10 = n" by (rule div_mult_mod_eq)
  have d2: "n div 100 * 10 + n div 10 mod 10 = n div 10"
    using div_mult_mod_eq [of "n div 10" 10] by (simp add: div_mult2_eq [symmetric])
  have d3: "n div 1000 * 10 + n div 100 mod 10 = n div 100"
    using div_mult_mod_eq [of "n div 100" 10] by (simp add: div_mult2_eq [symmetric])
  from that have "n div 1000 < 10" by simp
  then have d4: "n div 1000 mod 10 = n div 1000" by simp
  from d1 d2 d3 d4 show ?thesis by linarith
qed

lemma sextets_one:
  fixes a :: nat
  assumes "a < 256"
  shows "(a div 4 mod 64) * 4 + (a mod 4 * 16 mod 64) div 16 = a"
proof -
  from assms have "a div 4 < 64" by simp
  then have s1: "a div 4 mod 64 = a div 4" by simp
  have "a mod 4 < 4" by simp
  then have "a mod 4 * 16 < 64" by linarith
  then have s2: "a mod 4 * 16 mod 64 = a mod 4 * 16" by simp
  show ?thesis unfolding s1 s2 by simp
qed

lemma sextets_two:
  fixes a b :: nat
  assumes "a < 256" "b < 256"
  defines "n \<equiv> a * 256 + b"
  shows "(n div 1024 mod 64) * 4 + (n div 16 mod 64) div 16 = a"
    and "(n div 16 mod 64) mod 16 * 16 + (n mod 16 * 4 mod 64) div 4 = b"
proof -
  define a1 a0 b1 b0 where "a1 = a div 4" and "a0 = a mod 4" and "b1 = b div 16" and "b0 = b mod 16"
  have a: "a = a1 * 4 + a0" and b: "b = b1 * 16 + b0"
    by (simp_all add: a1_def a0_def b1_def b0_def)
  have bounds: "a1 < 64" "a0 < 4" "b1 < 16" "b0 < 16"
    using assms(1,2) by (simp_all add: a1_def a0_def b1_def b0_def)
  have n1: "n = (a0 * 256 + b1 * 16 + b0) + a1 * 1024" unfolding n_def a b by simp
  have n2: "n = b0 + (a1 * 64 + a0 * 16 + b1) * 16" unfolding n_def a b by simp
  have "a0 * 256 + b1 * 16 + b0 < 1024" using bounds by linarith
  then have "n div 1024 = a1" unfolding n1 by (rule div_part)
  then have s1: "n div 1024 mod 64 = a1" using bounds by simp
  have "n div 16 = a1 * 64 + a0 * 16 + b1" unfolding n2 using bounds by (simp only: div_part)
  then have "n div 16 = (a0 * 16 + b1) + a1 * 64" by simp
  moreover have "a0 * 16 + b1 < 64" using bounds by linarith
  ultimately have s2: "n div 16 mod 64 = a0 * 16 + b1" by (simp only: mod_part)
  have "n mod 16 = b0" unfolding n2 using bounds by (simp only: mod_part)
  moreover have "b0 * 4 < 64" using bounds by linarith
  ultimately have s3: "n mod 16 * 4 mod 64 = b0 * 4" by simp
  have q: "(a0 * 16 + b1) div 16 = a0" "(a0 * 16 + b1) mod 16 = b1"
    using div_part [of b1 16 a0] mod_part [of b1 16 a0] bounds by (simp_all add: add.commute)
  show "(n div 1024 mod 64) * 4 + (n div 16 mod 64) div 16 = a"
    unfolding s1 s2 q a by simp
  show "(n div 16 mod 64) mod 16 * 16 + (n mod 16 * 4 mod 64) div 4 = b"
    unfolding s2 s3 q b by simp
qed

lemma sextets_three:
  fixes a b c :: nat
  assumes "a < 256" "b < 256" "c < 256"
  defines "n \<equiv> a * 65536 + b * 256 + c"
  shows "(n div 262144 mod 64) * 4 + (n div 4096 mod 64) div 16 = a"
    and "(n div 4096 mod 64) mod 16 * 16 + (n div 64 mod 64) div 4 = b"
    and "(n div 64 mod 64) mod 4 * 64 + n mod 64 = c"
proof -
  define a1 a0 b1 b0 c1 c0 where "a1 = a div 4" and "a0 = a mod 4" and "b1 = b div 16"
    and "b0 = b mod 16" and "c1 = c div 64" and "c0 = c mod 64"
  have a: "a = a1 * 4 + a0" and b: "b = b1 * 16 + b0" and c: "c = c1 * 64 + c0"
    by (simp_all add: a1_def a0_def b1_def b0_def c1_def c0_def)
  have bounds: "a1 < 64" "a0 < 4" "b1 < 16" "b0 < 16" "c1 < 4" "c0 < 64"
    using assms(1-3) by (simp_all add: a1_def a0_def b1_def b0_def c1_def c0_def)
  have n1: "n = (a0 * 65536 + b1 * 4096 + b0 * 256 + c1 * 64 + c0) + a1 * 262144"
    unfolding n_def a b c by simp
  have n2: "n = (b0 * 256 + c1 * 64 + c0) + (a1 * 64 + a0 * 16 + b1) * 4096"
    unfolding n_def a b c by simp
  have n3: "n = c0 + (a1 * 4096 + a0 * 1024 + b1 * 64 + b0 * 4 + c1) * 64"
    unfolding n_def a b c by simp
  have "a0 * 65536 + b1 * 4096 + b0 * 256 + c1 * 64 + c0 < 262144" using bounds by linarith
  then have "n div 262144 = a1" unfolding n1 by (rule div_part)
  then have s1: "n div 262144 mod 64 = a1" using bounds by simp
  have "b0 * 256 + c1 * 64 + c0 < 4096" using bounds by linarith
  then have "n div 4096 = a1 * 64 + a0 * 16 + b1" unfolding n2 by (rule div_part)
  then have "n div 4096 = (a0 * 16 + b1) + a1 * 64" by simp
  moreover have "a0 * 16 + b1 < 64" using bounds by linarith
  ultimately have s2: "n div 4096 mod 64 = a0 * 16 + b1" by (simp only: mod_part)
  have "n div 64 = a1 * 4096 + a0 * 1024 + b1 * 64 + b0 * 4 + c1"
    unfolding n3 using bounds by (simp only: div_part)
  then have "n div 64 = (b0 * 4 + c1) + (a1 * 64 + a0 * 16 + b1) * 64" by simp
  moreover have "b0 * 4 + c1 < 64" using bounds by linarith
  ultimately have s3: "n div 64 mod 64 = b0 * 4 + c1" by (simp only: mod_part)
  have s4: "n mod 64 = c0" unfolding n3 using bounds by (simp only: mod_part)
  have q: "(a0 * 16 + b1) div 16 = a0" "(a0 * 16 + b1) mod 16 = b1"
    "(b0 * 4 + c1) div 4 = b0" "(b0 * 4 + c1) mod 4 = c1"
    using div_part [of b1 16 a0] mod_part [of b1 16 a0] div_part [of c1 4 b0]
      mod_part [of c1 4 b0] bounds
    by (simp_all add: add.commute)
  show "(n div 262144 mod 64) * 4 + (n div 4096 mod 64) div 16 = a"
    unfolding s1 s2 q a by simp
  show "(n div 4096 mod 64) mod 16 * 16 + (n div 64 mod 64) div 4 = b"
    unfolding s2 s3 q b by simp
  show "(n div 64 mod 64) mod 4 * 64 + n mod 64 = c"
    unfolding s3 s4 q c by simp
qed

lemma digit_all: "list_all (\<lambda>j. digit_value (''0123456789'' ! j) = j) [0..<10]"
  by (simp add: upt_rec [of 0] upt_rec [of "Suc 0"] numeral_2_eq_2 [symmetric] digit_value_def)

lemma digit_value_digit: "digit_value (digit n) = n mod 10"
proof -
  have "n mod 10 \<in> set [0..<10]" by simp
  with digit_all show ?thesis unfolding digit_def list_all_iff by blast
qed

lemma sextet_all: "list_all (\<lambda>j. b64_value (b64_alphabet ! j) = Some j) [0..<64]"
  by (simp add: upt_rec [of 0] upt_rec [of "Suc 0"] numeral_2_eq_2 [symmetric] b64_alphabet_def
      b64_value_def)

lemma b64_value_char: "b64_value (b64_char k) = Some (k mod 64)"
proof -
  have "k mod 64 \<in> set [0..<64]" by simp
  with sextet_all show ?thesis unfolding b64_char_def list_all_iff by blast
qed

lemma b64_char_not_pad: "b64_char k \<noteq> CHR ''=''"
proof -
  have "b64_char k \<in> set b64_alphabet" by (rule b64_char_alphabet)
  moreover have "CHR ''='' \<notin> set b64_alphabet" by (simp add: b64_alphabet_def)
  ultimately show ?thesis by metis
qed

lemma byte_bound: "unat (a :: byte) < 256"
  using unsigned_less [of a, where ?'a = nat] by simp

lemma b64decode_b64encode: "b64decode (b64encode bs) = Some bs"
proof (induction bs rule: b64encode.induct)
  case 1
  show ?case by simp
next
  case (2 a)
  have "of_nat ((unat a div 4 mod 64) * 4 + (unat a mod 4 * 16 mod 64) div 16) = a"
    unfolding sextets_one [OF byte_bound] by simp
  then show ?case
    by (simp add: Let_def b64_value_char)
next
  case (3 a b)
  let ?n = "unat a * 256 + unat b"
  have "of_nat ((?n div 1024 mod 64) * 4 + (?n div 16 mod 64) div 16) = a"
    and "of_nat ((?n div 16 mod 64) mod 16 * 16 + (?n mod 16 * 4 mod 64) div 4) = b"
    unfolding sextets_two [OF byte_bound byte_bound] by simp_all
  then show ?case
    by (simp add: Let_def b64_value_char b64_char_not_pad)
next
  case (4 a b c rest)
  let ?n = "unat a * 65536 + unat b * 256 + unat c"
  have "of_nat ((?n div 262144 mod 64) * 4 + (?n div 4096 mod 64) div 16) = a"
    and "of_nat ((?n div 4096 mod 64) mod 16 * 16 + (?n div 64 mod 64) div 4) = b"
    and "of_nat ((?n div 64 mod 64) mod 4 * 64 + ?n mod 64) = c"
    unfolding sextets_three [OF byte_bound byte_bound byte_bound] by simp_all
  with 4 show ?case
    by (simp add: Let_def b64_value_char b64_char_not_pad)
qed

lemma read_two: "read_nat [digit a, digit b] = 10 * (a mod 10) + b mod 10"
  by (simp add: read_nat_def digit_value_digit)

lemma read_four:
  "read_nat [digit a, digit b, digit c, digit d]
     = 1000 * (a mod 10) + 100 * (b mod 10) + 10 * (c mod 10) + d mod 10"
  by (simp add: read_nat_def digit_value_digit)

lemma timestamp_layout_strftime:
  assumes "valid_datetime t" and "1000 \<le> year t"
  shows "timestamp_layout (strftime t)"
  unfolding strftime_digits [OF assms] timestamp_layout_def
  by (simp add: is_digit_digit)

lemma strptime_strftime:
  assumes "valid_datetime t" and "1000 \<le> year t"
  shows "strptime (strftime t) = Some (year t, month t, day t, hour t, minute t, second t)"
proof -
  have lay: "timestamp_layout (strftime t)"
    using assms by (rule timestamp_layout_strftime)
  have small: "year t \<le> 9999" "month t < 100" "day t < 100" "hour t < 100" "minute t < 100"
    "second t < 100"
    using assms(1) by (simp_all add: valid_datetime_def)
  have fields:
    "take 4 (strftime t)
       = [digit (year t div 1000), digit (year t div 100), digit (year t div 10), digit (year t)]"
    "take 2 (drop 5 (strftime t)) = [digit (month t div 10), digit (month t)]"
    "take 2 (drop 8 (strftime t)) = [digit (day t div 10), digit (day t)]"
    "take 2 (drop 11 (strftime t)) = [digit (hour t div 10), digit (hour t)]"
    "take 2 (drop 14 (strftime t)) = [digit (minute t div 10), digit (minute t)]"
    "take 2 (drop 17 (strftime t)) = [digit (second t div 10), digit (second t)]"
    unfolding strftime_digits [OF assms] by simp_all
  show ?thesis
    unfolding strptime_def fields read_two read_four
    using lay four_digits [OF small(1)] two_digits [OF small(2)] two_digits [OF small(3)]
      two_digits [OF small(4)] two_digits [OF small(5)] two_digits [OF small(6)]
    by simp
qed

subsection \<open>The success response\<close>

text \<open>
  C3. A successful request answers 200 with Content-Type application/json and a JSON
  object with exactly the keys timestamp, heatmap and surface_plot. The timestamp has the
  layout YYYY-MM-DD HH:MM:SS and reads back as the year, month, day, hour, minute and
  second of the captured time (a clock reading with a four-digit year). The heatmap and
  the surface plot are base64 text that decodes to the PNG bytes the two renderers
  produced for the computed matrix.
\<close>

theorem success_response_shape:
  assumes run: "calculate_shadow ext p now = (Inr resp, p')"
      and clock: "valid_datetime now" "1000 \<le> year now"
  shows "status resp = 200 \<and>
         headers resp ''Content-Type'' = Some ''application/json'' \<and>
         map fst (body resp) = [''timestamp'', ''heatmap'', ''surface_plot''] \<and>
         (\<exists>ts. map_of (body resp) ''timestamp'' = Some ts \<and> timestamp_layout ts \<and>
               strptime ts
                 = Some (year now, month now, day now, hour now, minute now, second now)) \<and>
         (\<exists>m png h. calculate_shadow_matrix ext p now = Inr m \<and> heatmap_png ext m = Inr png \<and>
               map_of (body resp) ''heatmap'' = Some h \<and> b64decode h = Some png) \<and>
         (\<exists>m X Y n png s. calculate_shadow_matrix ext p now = Inr m \<and>
               normalize_dsm (dsm p) = Inr n \<and> surface_png ext X Y m n = Inr png \<and>
               map_of (body resp) ''surface_plot'' = Some s \<and> b64decode s = Some png)"
proof -
  from run have "fst (calculate_shadow ext p now) = Inr resp" by simp
  then obtain m h s where m: "calculate_shadow_matrix ext p now = Inr m"
    and h: "generate_heatmap ext m = Inr h"
    and s: "generate_surface_plot ext p m = Inr s"
    and resp: "resp = \<lparr>status = 200,
                       body = [(''timestamp'', strftime now), (''heatmap'', h), (''surface_plot'', s)],
                       headers = [''Content-Type'' \<mapsto> ''application/json'']\<rparr>"
    by (auto simp add: calculate_shadow_response split: sum.splits)
  from h obtain png1 where png1: "heatmap_png ext m = Inr png1" and h': "h = b64encode png1"
    by (auto simp add: generate_heatmap_def split: sum.splits)
  from s obtain X Y n png2 where n: "normalize_dsm (dsm p) = Inr n"
    and png2: "surface_png ext X Y m n = Inr png2" and s': "s = b64encode png2"
    by (auto simp add: generate_surface_plot_def Let_def split: sum.splits prod.splits)
  have time: "\<exists>ts. map_of (body resp) ''timestamp'' = Some ts \<and> timestamp_layout ts \<and>
               strptime ts
                 = Some (year now, month now, day now, hour now, minute now, second now)"
    using timestamp_layout_strftime [OF clock] strptime_strftime [OF clock] by (simp add: resp)
  have heat: "\<exists>m png h. calculate_shadow_matrix ext p now = Inr m \<and> heatmap_png ext m = Inr png \<and>
               map_of (body resp) ''heatmap'' = Some h \<and> b64decode h = Some png"
    using m png1 h' resp b64decode_b64encode by auto
  have surf: "\<exists>m X Y n png s. calculate_shadow_matrix ext p now = Inr m \<and>
               normalize_dsm (dsm p) = Inr n \<and> surface_png ext X Y m n = Inr png \<and>
               map_of (body resp) ''surface_plot'' = Some s \<and> b64decode s = Some png"
    using m n png2 s' resp b64decode_b64encode by auto
  show ?thesis
    using time heat surf by (simp add: resp)
qed

theorem success_response_shape_witness:
  "calculate_shadow demo_ext flat_process demo_now =
     (Inr demo_response,
      flat_process\<lparr>db := [(''shadow_matrices'',
                             [(''timestamp'', Time demo_now),
                              (''shadow_matrix'', Blob (np_zeros 3 3))])],
                   log := [(INFO, ''Saving shadow matrix to database.''),
                           (INFO, ''Shadow matrix saved successfully.'')]\<rparr>) \<and>
   valid_datetime demo_now \<and> 1000 \<le> year demo_now \<and>
   status demo_response = 200 \<and>
   headers demo_response ''Content-Type'' = Some ''application/json'' \<and>
   map fst (body demo_response) = [''timestamp'', ''heatmap'', ''surface_plot''] \<and>
   timestamp_layout ''2024-03-05 14:07:09'' \<and>
   strptime ''2024-03-05 14:07:09'' = Some (2024, 3, 5, 14, 7, 9) \<and>
   b64decode ''iVBORw=='' = Some [0x89, 0x50, 0x4E, 0x47] \<and>
   b64decode ''iVBORw0='' = Some [0x89, 0x50, 0x4E, 0x47, 0x0D]"
proof -
  have clock: "valid_datetime demo_now" "1000 \<le> year demo_now"
    by (simp_all add: valid_datetime_def demo_now_def)
  have fields: "year demo_now = 2024" "month demo_now = 3" "day demo_now = 5"
    "hour demo_now = 14" "minute demo_now = 7" "second demo_now = 9"
    by (simp_all add: demo_now_def)
  have png: "heatmap_png demo_ext = (\<lambda>m. Inr [0x89, 0x50, 0x4E, 0x47])"
    "surface_png demo_ext = (\<lambda>X Y m n. Inr [0x89, 0x50, 0x4E, 0x47, 0x0D])"
    by (simp_all add: demo_ext_def)
  show ?thesis
    using success_response_shape [OF demo_run clock] demo_run clock
    by (simp add: demo_response_def fields png demo_matrix demo_normalize)
qed

subsection \<open>Failure of sun-geometry resolution\<close>

text \<open>
  C7, as the code has it. If the solar-position calculator raises, or its table lacks
  the elevation or the azimuth column or has one of them empty, then
  \<^verbatim>\<open>calculate_shadow_matrix\<close> raises and the request fails with that exception, the
  process state untouched. The exception is the calculator's own, or the
  \<^verbatim>\<open>KeyError\<close> of the missing column, or the \<^verbatim>\<open>IndexError\<close> of the empty one,
  elevation being looked up first; none is wrapped in a \<open>GeometryError\<close>.
\<close>

theorem geometry_failure_fails_request:
  assumes "get_solarposition ext now (latitude p) (longitude p) = Inl e \<or>
           (\<exists>df. get_solarposition ext now (latitude p) (longitude p) = Inr df \<and>
                 (df ''elevation'' = None \<or> df ''elevation'' = Some [] \<or>
                  df ''azimuth'' = None \<or> df ''azimuth'' = Some []))"
  shows "\<exists>e'. calculate_shadow_matrix ext p now = Inl e' \<and>
              calculate_shadow ext p now = (Inl e', p) \<and>
              (get_solarposition ext now (latitude p) (longitude p) = Inl e \<longrightarrow> e' = e) \<and>
              (\<forall>df. get_solarposition ext now (latitude p) (longitude p) = Inr df \<longrightarrow>
                 \<not> is_geometry_error e' \<and>
                 e' = (if df ''elevation'' = None then KeyError ''elevation''
                       else if df ''elevation'' = Some []
                         then IndexError ''index 0 is out of bounds for axis 0 with size 0''
                       else if df ''azimuth'' = None then KeyError ''azimuth''
                       else IndexError ''index 0 is out of bounds for axis 0 with size 0''))"
proof -
  from assms obtain e' where e': "calculate_shadow_matrix ext p now = Inl e'"
    and own: "get_solarposition ext now (latitude p) (longitude p) = Inl e \<longrightarrow> e' = e"
    and table: "\<forall>df. get_solarposition ext now (latitude p) (longitude p) = Inr df \<longrightarrow>
                 \<not> is_geometry_error e' \<and>
                 e' = (if df ''elevation'' = None then KeyError ''elevation''
                       else if df ''elevation'' = Some []
                         then IndexError ''index 0 is out of bounds for axis 0 with size 0''
                       else if df ''azimuth'' = None then KeyError ''azimuth''
                       else IndexError ''index 0 is out of bounds for axis 0 with size 0'')"
    by (auto simp add: calculate_shadow_matrix_def df_first_def split: option.splits list.splits)
  from e' have "calculate_shadow ext p now = (Inl e', p)"
    by (simp add: calculate_shadow_def)
  with e' own table show ?thesis by blast
qed

theorem geometry_failure_fails_request_witness:
  "calculate_shadow no_sun_ext flat_process demo_now
     = (Inl (External ''no ephemeris''), flat_process) \<and>
   calculate_shadow no_azimuth_ext flat_process demo_now
     = (Inl (KeyError ''azimuth''), flat_process)"
proof -
  have sun: "get_solarposition no_sun_ext demo_now (latitude flat_process) (longitude flat_process)
               = Inl (External ''no ephemeris'')"
    by (simp add: no_sun_ext_def)
  have table: "get_solarposition no_azimuth_ext demo_now (latitude flat_process)
                 (longitude flat_process) = Inr [''elevation'' \<mapsto> [Num 45]]"
    by (simp add: no_azimuth_ext_def)
  from sun have a: "get_solarposition no_sun_ext demo_now (latitude flat_process)
                      (longitude flat_process) = Inl (External ''no ephemeris'') \<or>
           (\<exists>df. get_solarposition no_sun_ext demo_now (latitude flat_process)
                   (longitude flat_process) = Inr df \<and>
                 (df ''elevation'' = None \<or> df ''elevation'' = Some [] \<or>
                  df ''azimuth'' = None \<or> df ''azimuth'' = Some []))"
    by simp
  from table have b: "get_solarposition no_azimuth_ext demo_now (latitude flat_process)
                      (longitude flat_process) = Inl (External ''no ephemeris'') \<or>
           (\<exists>df. get_solarposition no_azimuth_ext demo_now (latitude flat_process)
                   (longitude flat_process) = Inr df \<and>
                 (df ''elevation'' = None \<or> df ''elevation'' = Some [] \<or>
                  df ''azimuth'' = None \<or> df ''azimuth'' = Some []))"
    by simp
  show ?thesis
    using geometry_failure_fails_request [OF a] geometry_failure_fails_request [OF b] sun table
    by auto
qed

text \<open>
  C7, as stated, fails: a table without azimuth makes the request fail with
  \<^verbatim>\<open>KeyError\<close>, which is not a \<open>GeometryError\<close>.
\<close>

theorem missing_azimuth_raises_key_error:
  "calculate_shadow no_azimuth_ext flat_process demo_now
     = (Inl (KeyError ''azimuth''), flat_process) \<and>
   \<not> is_geometry_error (KeyError ''azimuth'')"
  by (simp add: calculate_shadow_def calculate_shadow_matrix_def df_first_def no_azimuth_ext_def
      demo_ext_def)

subsection \<open>One time stamp and one matrix per request\<close>

lemma projections_append:
  "clock_reads (xs @ ys) = clock_reads xs @ clock_reads ys"
  "solar_times (xs @ ys) = solar_times xs @ solar_times ys"
  "shadow_runs (xs @ ys) = shadow_runs xs @ shadow_runs ys"
  "pickled (xs @ ys) = pickled xs @ pickled ys"
  "rendered (xs @ ys) = rendered xs @ rendered ys"
  "inserted (xs @ ys) = inserted xs @ inserted ys"
  by (simp_all add: clock_reads_def solar_times_def shadow_runs_def pickled_def rendered_def
      inserted_def)

lemmas projections =
  clock_reads_def solar_times_def shadow_runs_def pickled_def rendered_def inserted_def

lemma matrix_calls_result:
  "fst (calculate_shadow_matrix_calls ext p t) = calculate_shadow_matrix ext p t"
  by (simp add: calculate_shadow_matrix_calls_def calculate_shadow_matrix_def Let_def
      split: sum.splits)

lemma matrix_calls:
  "clock_reads (snd (calculate_shadow_matrix_calls ext p t)) = [] \<and>
   solar_times (snd (calculate_shadow_matrix_calls ext p t)) = [t] \<and>
   pickled (snd (calculate_shadow_matrix_calls ext p t)) = [] \<and>
   rendered (snd (calculate_shadow_matrix_calls ext p t)) = [] \<and>
   inserted (snd (calculate_shadow_matrix_calls ext p t)) = [] \<and>
   (shadow_runs (snd (calculate_shadow_matrix_calls ext p t)) = [] \<or>
    shadow_runs (snd (calculate_shadow_matrix_calls ext p t)) = [dsm p]) \<and>
   (\<forall>m. calculate_shadow_matrix ext p t = Inr m \<longrightarrow>
        shadow_runs (snd (calculate_shadow_matrix_calls ext p t)) = [dsm p])"
  by (auto simp add: calculate_shadow_matrix_calls_def calculate_shadow_matrix_def Let_def projections
      split: sum.splits)

lemma archive_calls_result: "fst (archive_calls ext p t m) = archive ext p t m"
  by (auto simp add: archive_calls_def archive_def compress_data_calls_def compress_data_def
      save_shadow_matrix_calls_def save_shadow_matrix_def Let_def
      split: sum.splits prod.splits)

lemma archive_calls:
  "clock_reads (snd (archive_calls ext p t m)) = [] \<and>
   solar_times (snd (archive_calls ext p t m)) = [] \<and>
   shadow_runs (snd (archive_calls ext p t m)) = [] \<and>
   rendered (snd (archive_calls ext p t m)) = [] \<and>
   pickled (snd (archive_calls ext p t m)) = [m] \<and>
   inserted (snd (archive_calls ext p t m)) =
     (case compress_data ext m of
        Inl e \<Rightarrow> []
      | Inr z \<Rightarrow> [ [(''timestamp'', Time t), (''shadow_matrix'', Blob z)] ])"
  by (auto simp add: archive_calls_def compress_data_calls_def compress_data_def
      save_shadow_matrix_calls_def Let_def projections split: sum.splits prod.splits)

lemma heatmap_calls:
  "fst (generate_heatmap_calls ext m) = generate_heatmap ext m \<and>
   clock_reads (snd (generate_heatmap_calls ext m)) = [] \<and>
   solar_times (snd (generate_heatmap_calls ext m)) = [] \<and>
   shadow_runs (snd (generate_heatmap_calls ext m)) = [] \<and>
   pickled (snd (generate_heatmap_calls ext m)) = [] \<and>
   inserted (snd (generate_heatmap_calls ext m)) = [] \<and>
   rendered (snd (generate_heatmap_calls ext m)) = [m]"
  by (simp add: generate_heatmap_calls_def generate_heatmap_def projections split: sum.splits)

lemma surface_calls:
  "fst (generate_surface_plot_calls ext p m) = generate_surface_plot ext p m \<and>
   clock_reads (snd (generate_surface_plot_calls ext p m)) = [] \<and>
   solar_times (snd (generate_surface_plot_calls ext p m)) = [] \<and>
   shadow_runs (snd (generate_surface_plot_calls ext p m)) = [] \<and>
   pickled (snd (generate_surface_plot_calls ext p m)) = [] \<and>
   inserted (snd (generate_surface_plot_calls ext p m)) = [] \<and>
   (rendered (snd (generate_surface_plot_calls ext p m)) = [] \<or>
    rendered (snd (generate_surface_plot_calls ext p m)) = [m]) \<and>
   (\<forall>s. generate_surface_plot ext p m = Inr s \<longrightarrow>
        rendered (snd (generate_surface_plot_calls ext p m)) = [m])"
  by (auto simp add: generate_surface_plot_calls_def generate_surface_plot_def Let_def projections
      split: sum.splits prod.splits)

lemma now_call:
  "clock_reads (Now t # cs) = t # clock_reads cs \<and> solar_times (Now t # cs) = solar_times cs \<and>
   shadow_runs (Now t # cs) = shadow_runs cs \<and> pickled (Now t # cs) = pickled cs \<and>
   rendered (Now t # cs) = rendered cs \<and> inserted (Now t # cs) = inserted cs"
  by (simp add: projections)

text \<open>
  C10. A request, with the calls it makes recorded, returns what \<open>calculate_shadow\<close>
  returns at the first clock reading. It reads the clock once, and that reading is the
  time given to the calculator, written into the archived document and formatted into
  the response. The shadow algorithm runs at most once, on the terrain, and exactly once
  when a matrix results; that matrix is the one array handed to the serialiser during
  archival and the array handed to each renderer after it; the only document handed to
  the store pairs the reading with the compressed serialisation of that matrix.
\<close>

theorem one_timestamp_one_matrix:
  "let cs = snd (calculate_shadow_calls ext clock p); now = clock 0
   in fst (calculate_shadow_calls ext clock p) = calculate_shadow ext p now \<and>
      clock_reads cs = [now] \<and>
      solar_times cs = [now] \<and>
      (case calculate_shadow_matrix ext p now of
         Inl e \<Rightarrow>
           (shadow_runs cs = [] \<or> shadow_runs cs = [dsm p]) \<and>
           pickled cs = [] \<and> inserted cs = [] \<and> rendered cs = []
       | Inr m \<Rightarrow>
           shadow_runs cs = [dsm p] \<and>
           pickled cs = [m] \<and>
           inserted cs =
             (case compress_data ext m of
                Inl e \<Rightarrow> []
              | Inr z \<Rightarrow> [ [(''timestamp'', Time now), (''shadow_matrix'', Blob z)] ]) \<and>
           (rendered cs = [m] \<or> rendered cs = [m, m]) \<and>
           (\<forall>resp. fst (calculate_shadow ext p now) = Inr resp \<longrightarrow>
              rendered cs = [m, m] \<and>
              map_of (body resp) ''timestamp'' = Some (strftime now)))"
proof -
  define now where "now = clock 0"
  obtain r1 c1 where mc: "calculate_shadow_matrix_calls ext p now = (r1, c1)"
    by (cases "calculate_shadow_matrix_calls ext p now") blast
  have r1: "r1 = calculate_shadow_matrix ext p now"
    using matrix_calls_result [of ext p now] mc by simp
  have c1: "clock_reads c1 = []" "solar_times c1 = [now]" "pickled c1 = []" "rendered c1 = []"
    "inserted c1 = []" "shadow_runs c1 = [] \<or> shadow_runs c1 = [dsm p]"
    "\<forall>m. calculate_shadow_matrix ext p now = Inr m \<longrightarrow> shadow_runs c1 = [dsm p]"
    using matrix_calls [of ext p now] mc by simp_all
  show ?thesis
  proof (cases r1)
    case (Inl e)
    with r1 have fail: "calculate_shadow_matrix ext p now = Inl e" by simp
    show ?thesis
      using Inl mc c1 fail
      by (simp add: calculate_shadow_calls_def calculate_shadow_def Let_def now_def [symmetric]
          projections_append now_call)
  next
    case (Inr m)
    with r1 have ok: "calculate_shadow_matrix ext p now = Inr m" by simp
    obtain p1 c2 where ac: "archive_calls ext p now m = (p1, c2)"
      by (cases "archive_calls ext p now m") blast
    have p1: "p1 = archive ext p now m"
      using archive_calls_result [of ext p now m] ac by simp
    have c2: "clock_reads c2 = []" "solar_times c2 = []" "shadow_runs c2 = []" "rendered c2 = []"
      "pickled c2 = [m]"
      "inserted c2 = (case compress_data ext m of
                        Inl e \<Rightarrow> []
                      | Inr z \<Rightarrow> [ [(''timestamp'', Time now), (''shadow_matrix'', Blob z)] ])"
      using archive_calls [of ext p now m] ac by simp_all
    obtain r3 c3 where hc: "generate_heatmap_calls ext m = (r3, c3)"
      by (cases "generate_heatmap_calls ext m") blast
    have r3: "r3 = generate_heatmap ext m"
      and c3: "clock_reads c3 = []" "solar_times c3 = []" "shadow_runs c3 = []" "pickled c3 = []"
        "inserted c3 = []" "rendered c3 = [m]"
      using heatmap_calls [of ext m] hc by simp_all
    obtain r4 c4 where sc: "generate_surface_plot_calls ext p1 m = (r4, c4)"
      by (cases "generate_surface_plot_calls ext p1 m") blast
    have r4: "r4 = generate_surface_plot ext p1 m"
      and c4: "clock_reads c4 = []" "solar_times c4 = []" "shadow_runs c4 = []" "pickled c4 = []"
        "inserted c4 = []" "rendered c4 = [] \<or> rendered c4 = [m]"
        "\<forall>s. generate_surface_plot ext p1 m = Inr s \<longrightarrow> rendered c4 = [m]"
      using surface_calls [of ext p1 m] sc by simp_all
    have run: "calculate_shadow ext p now =
                 (case r3 of
                    Inl e \<Rightarrow> (Inl e, p1)
                  | Inr heatmap \<Rightarrow>
                      (case r4 of
                         Inl e \<Rightarrow> (Inl e, p1)
                       | Inr surface_plot \<Rightarrow>
                           (Inr \<lparr>status = 200,
                                 body = [(''timestamp'', strftime now), (''heatmap'', heatmap),
                                         (''surface_plot'', surface_plot)],
                                 headers = [''Content-Type'' \<mapsto> ''application/json'']\<rparr>, p1)))"
      using ok by (simp add: calculate_shadow_def Let_def jsonify_def r3 r4 p1 split: sum.splits)
    show ?thesis
    proof (cases r3)
      case (Inl e)
      show ?thesis
        using Inl Inr mc ac hc c1 c2 c3 ok run
        by (simp add: calculate_shadow_calls_def Let_def now_def [symmetric]
            projections_append now_call)
    next
      case h: (Inr heatmap)
      show ?thesis
      proof (cases r4)
        case (Inl e)
        show ?thesis
          using Inl h Inr mc ac hc sc c1 c2 c3 c4 ok run
          by (auto simp add: calculate_shadow_calls_def Let_def now_def [symmetric]
              projections_append now_call)
      next
        case s: (Inr surface_plot)
        with r4 c4(7) have "rendered c4 = [m]" by metis
        then show ?thesis
          using s h Inr mc ac hc sc c1 c2 c3 c4 ok run
          by (simp add: calculate_shadow_calls_def Let_def jsonify_def now_def [symmetric]
              projections_append now_call)
      qed
    qed
  qed
qed

theorem one_timestamp_one_matrix_witness:
  "clock_reads (snd (calculate_shadow_calls demo_ext demo_clock flat_process)) = [demo_now] \<and>
   solar_times (snd (calculate_shadow_calls demo_ext demo_clock flat_process)) = [demo_now] \<and>
   shadow_runs (snd (calculate_shadow_calls demo_ext demo_clock flat_process)) = [np_zeros 3 3] \<and>
   pickled (snd (calculate_shadow_calls demo_ext demo_clock flat_process)) = [np_zeros 3 3] \<and>
   inserted (snd (calculate_shadow_calls demo_ext demo_clock flat_process))
     = [ [(''timestamp'', Time demo_now), (''shadow_matrix'', Blob (np_zeros 3 3))] ] \<and>
   rendered (snd (calculate_shadow_calls demo_ext demo_clock flat_process))
     = [np_zeros 3 3, np_zeros 3 3] \<and>
   fst (calculate_shadow_calls demo_ext demo_clock flat_process)
     = calculate_shadow demo_ext flat_process demo_now"
proof -
  have clock: "demo_clock 0 = demo_now"
    by (simp add: demo_clock_def demo_now_def)
  have terrain: "dsm flat_process = np_zeros 3 3"
    by (simp add: flat_process_def startup_def nan_to_num_def np_zeros_def)
  have payload: "compress_data demo_ext (np_zeros 3 3) = Inr (np_zeros 3 3)"
    by (simp add: compress_data_def demo_ext_def)
  show ?thesis
    using one_timestamp_one_matrix [of demo_ext demo_clock flat_process]
    by (simp add: Let_def clock terrain payload demo_matrix demo_response_value)
qed

end
